theory Spec2Isabelle
  imports Main "HOL-Library.AList" "HOL-Library.Sublist"
begin

section \<open>Values of the vendor API: decoded JSON\<close>

text \<open>
  Everything the integration reads and writes is a decoded JSON document: the WiFi
  configuration returned by \<^verbatim>\<open>SYNO.Wifi.Network.Setting\<close>, the response envelopes of
  \<^verbatim>\<open>Http.call\<close>, the arguments of \<^verbatim>\<open>set_network_setting\<close>. A Python \<^verbatim>\<open>dict\<close> keeps its
  keys in insertion order, so an object is an association list; \<^verbatim>\<open>d[k] = v\<close> is
  \<open>AList.update\<close> (an existing key keeps its place, a new one goes last) and a lookup is
  \<open>map_of\<close>. JSON numbers are the integers (the ids and error codes of the API);
  fractional numbers are left out.
\<close>

datatype json =
    JNull
  | JBool bool
  | JInt int
  | JStr string
  | JList "json list"
  | JDict "(string \<times> json) list"

text \<open>The exceptions the modelled code can raise, as values.\<close>

datatype py_error =
    AttributeError
  | TypeError
  | KeyError string
  | ValueError string
  | JSONDecodeError
  | RequestException
  | SynologyHttpException string
  | SynologyCommonError json string
  | SynologyApiError json string

section \<open>The Python operations the code applies to such values\<close>

text \<open>\<^verbatim>\<open>x.get(key, default)\<close>: only a dict has it.\<close>

fun py_get :: "json \<Rightarrow> string \<Rightarrow> json \<Rightarrow> py_error + json" where
  "py_get (JDict kvs) k d = Inr (case map_of kvs k of None \<Rightarrow> d | Some v \<Rightarrow> v)"
| "py_get _ k d = Inl AttributeError"

text \<open>
  \<^verbatim>\<open>for x in v\<close>: a list yields its elements, a dict its keys, a string its characters
  (each a string of length one); nothing else is iterable.
\<close>

fun py_iter :: "json \<Rightarrow> py_error + json list" where
  "py_iter (JList xs) = Inr xs"
| "py_iter (JDict kvs) = Inr (map (\<lambda>kv. JStr (fst kv)) kvs)"
| "py_iter (JStr s) = Inr (map (\<lambda>c. JStr [c]) s)"
| "py_iter _ = Inl TypeError"

text \<open>Truth value of an object, as \<^verbatim>\<open>if not x\<close> and \<^verbatim>\<open>not x\<close> take it.\<close>

fun py_truthy :: "json \<Rightarrow> bool" where
  "py_truthy JNull = False"
| "py_truthy (JBool b) = b"
| "py_truthy (JInt i) = (i \<noteq> 0)"
| "py_truthy (JStr s) = (s \<noteq> [])"
| "py_truthy (JList xs) = (xs \<noteq> [])"
| "py_truthy (JDict kvs) = (kvs \<noteq> [])"

text \<open>
  \<^verbatim>\<open>v == n\<close> for an \<^verbatim>\<open>int\<close> argument \<open>n\<close> (\<^verbatim>\<open>bool\<close> is a subclass of \<^verbatim>\<open>int\<close>, so
  \<^verbatim>\<open>True == 1\<close>), and \<^verbatim>\<open>v == s\<close> for a \<^verbatim>\<open>str\<close> argument \<open>s\<close>.
\<close>

fun py_eq_int :: "json \<Rightarrow> int \<Rightarrow> bool" where
  "py_eq_int (JInt i) n = (i = n)"
| "py_eq_int (JBool b) n = ((if b then 1 else 0) = n)"
| "py_eq_int _ n = False"

fun py_eq_str :: "json \<Rightarrow> string \<Rightarrow> bool" where
  "py_eq_str (JStr s) t = (s = t)"
| "py_eq_str _ t = False"

text \<open>\<^verbatim>\<open>d[key] = v\<close> on a dict.\<close>

fun py_setitem :: "json \<Rightarrow> string \<Rightarrow> json \<Rightarrow> json" where
  "py_setitem (JDict kvs) k v = JDict (AList.update k v kvs)"
| "py_setitem x k v = x"

section \<open>The configuration model: \<^verbatim>\<open>wifi_utils.WiFiConfigManager\<close>\<close>

text \<open>
  The manager's only attribute is \<^verbatim>\<open>self.config\<close>, the snapshot it was built from. The
  methods below take that snapshot as their first argument. A call that raises returns
  \<open>Inl\<close>; every raise of this class happens during a lookup, before anything is
  assigned, so the snapshot is then as it was.

  The loops of \<^verbatim>\<open>get_profile_by_id\<close> and \<^verbatim>\<open>get_radio_by_type\<close> have one shape,
  \<^verbatim>\<open>for x in xs: if x.get(key) == wanted: return x\<close>, followed by \<^verbatim>\<open>return None\<close>. Python
  returns a reference to the element found; the model returns the element together with
  its position in the list, which is what the reference stands for when the snapshot is a
  tree (as \<^verbatim>\<open>response.json()\<close> builds it: no object occurs twice).
\<close>

fun first_match :: "string \<Rightarrow> (json \<Rightarrow> bool) \<Rightarrow> json list \<Rightarrow> py_error + (nat \<times> json) option" where
  "first_match key wanted [] = Inr None"
| "first_match key wanted (x # xs) =
     (case py_get x key JNull of
        Inl e \<Rightarrow> Inl e
      | Inr v \<Rightarrow>
          if wanted v then Inr (Some (0, x))
          else (case first_match key wanted xs of
                  Inl e \<Rightarrow> Inl e
                | Inr None \<Rightarrow> Inr None
                | Inr (Some (i, y)) \<Rightarrow> Inr (Some (Suc i, y))))"

definition get_profiles :: "json \<Rightarrow> py_error + json" where
  "get_profiles config = py_get config ''profiles'' (JList [])"

text \<open>\<^verbatim>\<open>get_profile_by_id\<close>, with the position of the profile found.\<close>

definition locate_profile :: "json \<Rightarrow> int \<Rightarrow> py_error + (nat \<times> json) option" where
  "locate_profile config profile_id =
     (case get_profiles config of
        Inl e \<Rightarrow> Inl e
      | Inr ps \<Rightarrow>
          (case py_iter ps of
             Inl e \<Rightarrow> Inl e
           | Inr xs \<Rightarrow> first_match ''id'' (\<lambda>v. py_eq_int v profile_id) xs))"

definition get_profile_by_id :: "json \<Rightarrow> int \<Rightarrow> py_error + json option" where
  "get_profile_by_id config profile_id =
     (case locate_profile config profile_id of
        Inl e \<Rightarrow> Inl e
      | Inr r \<Rightarrow> Inr (map_option snd r))"

text \<open>\<^verbatim>\<open>get_radio_by_type\<close>, with the positions of the profile and of the radio found.\<close>

definition locate_radio :: "json \<Rightarrow> int \<Rightarrow> string \<Rightarrow> py_error + (nat \<times> nat \<times> json) option" where
  "locate_radio config profile_id radio_type =
     (case locate_profile config profile_id of
        Inl e \<Rightarrow> Inl e
      | Inr None \<Rightarrow> Inr None
      | Inr (Some (i, profile)) \<Rightarrow>
          if \<not> py_truthy profile then Inr None
          else
            (case py_get profile ''radio_list'' (JList []) of
               Inl e \<Rightarrow> Inl e
             | Inr rl \<Rightarrow>
                 (case py_iter rl of
                    Inl e \<Rightarrow> Inl e
                  | Inr rs \<Rightarrow>
                      (case first_match ''radio_type'' (\<lambda>v. py_eq_str v radio_type) rs of
                         Inl e \<Rightarrow> Inl e
                       | Inr None \<Rightarrow> Inr None
                       | Inr (Some (j, radio)) \<Rightarrow> Inr (Some (i, j, radio))))))"

definition get_radio_by_type :: "json \<Rightarrow> int \<Rightarrow> string \<Rightarrow> py_error + json option" where
  "get_radio_by_type config profile_id radio_type =
     (case locate_radio config profile_id radio_type of
        Inl e \<Rightarrow> Inl e
      | Inr r \<Rightarrow> Inr (map_option (\<lambda>t. snd (snd t)) r))"

text \<open>
  Assignment through a reference, on the tree: the object at a position is replaced by
  its updated self, everything else stays.
\<close>

fun in_field :: "string \<Rightarrow> (json \<Rightarrow> json) \<Rightarrow> json \<Rightarrow> json" where
  "in_field k f (JDict kvs) =
     (case map_of kvs k of
        None \<Rightarrow> JDict kvs
      | Some v \<Rightarrow> JDict (AList.update k (f v) kvs))"
| "in_field k f x = x"

fun in_list_at :: "nat \<Rightarrow> (json \<Rightarrow> json) \<Rightarrow> json \<Rightarrow> json" where
  "in_list_at i f (JList xs) = (if i < length xs then JList (xs[i := f (xs ! i)]) else JList xs)"
| "in_list_at i f x = x"

definition at_profile :: "nat \<Rightarrow> (json \<Rightarrow> json) \<Rightarrow> json \<Rightarrow> json" where
  "at_profile i f config = in_field ''profiles'' (in_list_at i f) config"

definition at_radio :: "nat \<Rightarrow> nat \<Rightarrow> (json \<Rightarrow> json) \<Rightarrow> json \<Rightarrow> json" where
  "at_radio i j f config = at_profile i (in_field ''radio_list'' (in_list_at j f)) config"

text \<open>The two mutators return their flag and the snapshot after the call.\<close>

definition toggle_smart_connect :: "json \<Rightarrow> int \<Rightarrow> bool \<Rightarrow> py_error + (bool \<times> json)" where
  "toggle_smart_connect config profile_id enable =
     (case locate_profile config profile_id of
        Inl e \<Rightarrow> Inl e
      | Inr None \<Rightarrow> Inr (False, config)
      | Inr (Some (i, profile)) \<Rightarrow>
          if \<not> py_truthy profile then Inr (False, config)
          else Inr (True,
                 at_profile i (\<lambda>p. py_setitem p ''enable_smart_connect'' (JBool enable)) config))"

definition enable_radio :: "json \<Rightarrow> int \<Rightarrow> string \<Rightarrow> bool \<Rightarrow> py_error + (bool \<times> json)" where
  "enable_radio config profile_id radio_type enable =
     (case locate_radio config profile_id radio_type of
        Inl e \<Rightarrow> Inl e
      | Inr None \<Rightarrow> Inr (False, config)
      | Inr (Some (i, j, radio)) \<Rightarrow>
          if \<not> py_truthy radio then Inr (False, config)
          else Inr (True, at_radio i j (\<lambda>r. py_setitem r ''enable'' (JBool enable)) config))"

definition is_smart_connect_enabled :: "json \<Rightarrow> int \<Rightarrow> py_error + json" where
  "is_smart_connect_enabled config profile_id =
     (case get_profile_by_id config profile_id of
        Inl e \<Rightarrow> Inl e
      | Inr None \<Rightarrow> Inr (JBool False)
      | Inr (Some profile) \<Rightarrow>
          if py_truthy profile then py_get profile ''enable_smart_connect'' (JBool False)
          else Inr (JBool False))"

definition is_radio_available :: "json \<Rightarrow> int \<Rightarrow> string \<Rightarrow> py_error + json" where
  "is_radio_available config profile_id radio_type =
     (case get_profile_by_id config profile_id of
        Inl e \<Rightarrow> Inl e
      | Inr None \<Rightarrow> Inr (JBool False)
      | Inr (Some profile) \<Rightarrow>
          if \<not> py_truthy profile then Inr (JBool False)
          else
            (case py_get profile ''enable_smart_connect'' (JBool False) of
               Inl e \<Rightarrow> Inl e
             | Inr enable_smart_connect \<Rightarrow>
                 if radio_type = ''SmartConnect'' then Inr enable_smart_connect
                 else Inr (JBool (\<not> py_truthy enable_smart_connect))))"

definition is_radio_enabled :: "json \<Rightarrow> int \<Rightarrow> string \<Rightarrow> py_error + json" where
  "is_radio_enabled config profile_id radio_type =
     (case get_radio_by_type config profile_id radio_type of
        Inl e \<Rightarrow> Inl e
      | Inr None \<Rightarrow> Inr (JBool False)
      | Inr (Some radio) \<Rightarrow>
          if py_truthy radio then py_get radio ''enable'' (JBool False)
          else Inr (JBool False))"

text \<open>
  \<^verbatim>\<open>get_network_summary\<close>. The two dict literals it appends are the two descriptor
  functions; the f-strings \<^verbatim>\<open>f"Profile {profile_id}"\<close> and \<^verbatim>\<open>f"Unknown_{radio_type}"\<close>
  apply the built-in \<^verbatim>\<open>str\<close> to a value of the snapshot, which the model takes as the
  parameter \<open>str\<close>. A default is computed before \<^verbatim>\<open>get\<close> is called, as Python does.
\<close>

definition toggle_descriptor :: "json \<Rightarrow> json \<Rightarrow> json \<Rightarrow> json \<Rightarrow> json" where
  "toggle_descriptor profile_id network_type profile_name enable_smart_connect =
     JDict [(''profile_id'', profile_id),
            (''radio_type'', JStr ''smart_connect_toggle''),
            (''ssid'', JStr '' SmartConnect Toggle''),
            (''network_type'', network_type),
            (''profile_name'', profile_name),
            (''switch_type'', JStr ''smart_connect_toggle''),
            (''enabled'', enable_smart_connect),
            (''always_available'', JBool True)]"

definition radio_descriptor ::
  "json \<Rightarrow> json \<Rightarrow> json \<Rightarrow> json \<Rightarrow> json \<Rightarrow> json \<Rightarrow> json \<Rightarrow> json" where
  "radio_descriptor profile_id radio_type ssid network_type profile_name enabled available =
     JDict [(''profile_id'', profile_id),
            (''radio_type'', radio_type),
            (''ssid'', ssid),
            (''network_type'', network_type),
            (''profile_name'', profile_name),
            (''switch_type'', JStr ''radio''),
            (''enabled'', enabled),
            (''available'', available),
            (''always_available'', JBool False)]"

text \<open>The inner loop, over the radios of one profile.\<close>

fun summary_radios ::
  "(json \<Rightarrow> string) \<Rightarrow> json \<Rightarrow> json \<Rightarrow> json \<Rightarrow> json \<Rightarrow> json list \<Rightarrow> py_error + json list" where
  "summary_radios str profile_id network_type profile_name enable_smart_connect [] = Inr []"
| "summary_radios str profile_id network_type profile_name enable_smart_connect (radio # rs) =
     (case py_get radio ''radio_type'' JNull of
        Inl e \<Rightarrow> Inl e
      | Inr radio_type \<Rightarrow>
     (case py_get radio ''ssid'' (JStr (''Unknown_'' @ str radio_type)) of
        Inl e \<Rightarrow> Inl e
      | Inr ssid \<Rightarrow>
     (case py_get radio ''enable'' (JBool False) of
        Inl e \<Rightarrow> Inl e
      | Inr enabled \<Rightarrow>
          let available =
            (if py_eq_str radio_type ''SmartConnect'' then enable_smart_connect
             else JBool (\<not> py_truthy enable_smart_connect))
          in
     (case summary_radios str profile_id network_type profile_name enable_smart_connect rs of
        Inl e \<Rightarrow> Inl e
      | Inr ds \<Rightarrow>
          Inr (radio_descriptor profile_id radio_type ssid network_type profile_name
                 enabled available # ds)))))"

text \<open>The outer loop, over the profiles.\<close>

fun summary_profiles :: "(json \<Rightarrow> string) \<Rightarrow> json list \<Rightarrow> py_error + json list" where
  "summary_profiles str [] = Inr []"
| "summary_profiles str (profile # ps) =
     (case py_get profile ''id'' JNull of
        Inl e \<Rightarrow> Inl e
      | Inr profile_id \<Rightarrow>
     (case py_get profile ''name'' (JStr (''Profile '' @ str profile_id)) of
        Inl e \<Rightarrow> Inl e
      | Inr profile_name \<Rightarrow>
     (case py_get profile ''network_type'' (JStr ''custom'') of
        Inl e \<Rightarrow> Inl e
      | Inr network_type \<Rightarrow>
     (case py_get profile ''enable_smart_connect'' (JBool False) of
        Inl e \<Rightarrow> Inl e
      | Inr enable_smart_connect \<Rightarrow>
     (case py_get profile ''radio_list'' (JList []) of
        Inl e \<Rightarrow> Inl e
      | Inr rl \<Rightarrow>
     (case py_iter rl of
        Inl e \<Rightarrow> Inl e
      | Inr rs \<Rightarrow>
     (case summary_radios str profile_id network_type profile_name enable_smart_connect rs of
        Inl e \<Rightarrow> Inl e
      | Inr radio_entries \<Rightarrow>
     (case summary_profiles str ps of
        Inl e \<Rightarrow> Inl e
      | Inr ds \<Rightarrow>
          Inr (toggle_descriptor profile_id network_type profile_name enable_smart_connect
                 # radio_entries @ ds)))))))))"

definition get_network_summary :: "(json \<Rightarrow> string) \<Rightarrow> json \<Rightarrow> py_error + json list" where
  "get_network_summary str config =
     (case get_profiles config of
        Inl e \<Rightarrow> Inl e
      | Inr ps \<Rightarrow>
          (case py_iter ps of
             Inl e \<Rightarrow> Inl e
           | Inr xs \<Rightarrow> summary_profiles str xs))"

section \<open>The shape of a configuration\<close>

text \<open>
  The type hints of the class give the shape of a snapshot: the configuration is a dict,
  \<^verbatim>\<open>get_profiles\<close> returns a \<^verbatim>\<open>list[dict[str, Any]]\<close>, and each radio is used as a dict. The
  predicates ask for no more than that: no key has to be present, and the values of the
  keys other than \<^verbatim>\<open>profiles\<close> and \<^verbatim>\<open>radio_list\<close> are free.
\<close>

fun is_dict :: "json \<Rightarrow> bool" where
  "is_dict (JDict kvs) = True"
| "is_dict _ = False"

definition profiles_of :: "json \<Rightarrow> json list" where
  "profiles_of config = (case get_profiles config of Inr (JList ps) \<Rightarrow> ps | _ \<Rightarrow> [])"

definition radios_of :: "json \<Rightarrow> json list" where
  "radios_of profile =
     (case py_get profile ''radio_list'' (JList []) of Inr (JList rs) \<Rightarrow> rs | _ \<Rightarrow> [])"

definition wf_profiles :: "json \<Rightarrow> bool" where
  "wf_profiles config =
     (case get_profiles config of Inr (JList ps) \<Rightarrow> list_all is_dict ps | _ \<Rightarrow> False)"

definition wf_profile :: "json \<Rightarrow> bool" where
  "wf_profile profile =
     (case py_get profile ''radio_list'' (JList []) of
        Inr (JList rs) \<Rightarrow> list_all is_dict rs
      | _ \<Rightarrow> False)"

definition wf_config :: "json \<Rightarrow> bool" where
  "wf_config config =
     (case get_profiles config of Inr (JList ps) \<Rightarrow> list_all wf_profile ps | _ \<Rightarrow> False)"

text \<open>
  A profile answers to an id when \<^verbatim>\<open>profile.get("id") == profile_id\<close>, and a radio to a
  type when \<^verbatim>\<open>radio.get("radio_type") == radio_type\<close>. The profile with an id is the first
  profile of the configuration that answers to it (the only one, where ids are unique as
  the data model says), \<open>find (profile_has_id pid) (profiles_of config)\<close>; likewise the
  radio of a type within a profile.
\<close>

definition profile_has_id :: "int \<Rightarrow> json \<Rightarrow> bool" where
  "profile_has_id profile_id profile =
     (case py_get profile ''id'' JNull of Inr v \<Rightarrow> py_eq_int v profile_id | Inl e \<Rightarrow> False)"

definition radio_has_type :: "string \<Rightarrow> json \<Rightarrow> bool" where
  "radio_has_type radio_type radio =
     (case py_get radio ''radio_type'' JNull of Inr v \<Rightarrow> py_eq_str v radio_type | Inl e \<Rightarrow> False)"

text \<open>
  The summary as the specification words it: profile by profile, the Smart-Connect toggle
  of the profile first, then one entry for each of its radios, in the order of the radio
  list.
\<close>

fun value_or :: "json \<Rightarrow> string \<Rightarrow> json \<Rightarrow> json" where
  "value_or (JDict kvs) k d = (case map_of kvs k of None \<Rightarrow> d | Some v \<Rightarrow> v)"
| "value_or x k d = d"

definition profile_name_of :: "(json \<Rightarrow> string) \<Rightarrow> json \<Rightarrow> json" where
  "profile_name_of str p = value_or p ''name'' (JStr (''Profile '' @ str (value_or p ''id'' JNull)))"

definition toggle_entry :: "(json \<Rightarrow> string) \<Rightarrow> json \<Rightarrow> json" where
  "toggle_entry str p =
     toggle_descriptor (value_or p ''id'' JNull) (value_or p ''network_type'' (JStr ''custom''))
       (profile_name_of str p) (value_or p ''enable_smart_connect'' (JBool False))"

definition radio_entry :: "(json \<Rightarrow> string) \<Rightarrow> json \<Rightarrow> json \<Rightarrow> json" where
  "radio_entry str p r =
     radio_descriptor (value_or p ''id'' JNull) (value_or r ''radio_type'' JNull)
       (value_or r ''ssid'' (JStr (''Unknown_'' @ str (value_or r ''radio_type'' JNull))))
       (value_or p ''network_type'' (JStr ''custom'')) (profile_name_of str p)
       (value_or r ''enable'' (JBool False))
       (if py_eq_str (value_or r ''radio_type'' JNull) ''SmartConnect''
        then value_or p ''enable_smart_connect'' (JBool False)
        else JBool (\<not> py_truthy (value_or p ''enable_smart_connect'' (JBool False))))"

definition profile_entries :: "(json \<Rightarrow> string) \<Rightarrow> json \<Rightarrow> json list" where
  "profile_entries str p = toggle_entry str p # map (radio_entry str p) (radios_of p)"

definition expected_summary :: "(json \<Rightarrow> string) \<Rightarrow> json \<Rightarrow> json list" where
  "expected_summary str config = concat (map (profile_entries str) (profiles_of config))"

text \<open>Reading a key of an object, for stating what a call leaves alone.\<close>

fun field :: "json \<Rightarrow> string \<Rightarrow> json option" where
  "field (JDict kvs) k = map_of kvs k"
| "field x k = None"

section \<open>The snapshot as an object\<close>

text \<open>
  \<^verbatim>\<open>__init__\<close> stores the dict it is given, and \<^verbatim>\<open>get_config\<close> returns what is stored:
  in Python both are references to one object. To say so, a snapshot lives at an address
  of a heap, the manager holds the address, and a mutator called on the manager updates
  the heap at that address. The tree below an address is kept as a value, as before.
\<close>

type_synonym ref = nat
type_synonym heap = "ref \<Rightarrow> json"

record WiFiConfigManager =
  self_config :: ref

definition WiFiConfigManager_init :: "ref \<Rightarrow> WiFiConfigManager" where
  "WiFiConfigManager_init config = \<lparr>self_config = config\<rparr>"

definition get_config :: "WiFiConfigManager \<Rightarrow> ref" where
  "get_config m = self_config m"

definition enable_radio_at ::
  "heap \<Rightarrow> WiFiConfigManager \<Rightarrow> int \<Rightarrow> string \<Rightarrow> bool \<Rightarrow> (py_error + bool) \<times> heap" where
  "enable_radio_at h m profile_id radio_type enable =
     (case enable_radio (h (self_config m)) profile_id radio_type enable of
        Inl e \<Rightarrow> (Inl e, h)
      | Inr (ok, c) \<Rightarrow> (Inr ok, h(self_config m := c)))"

definition toggle_smart_connect_at ::
  "heap \<Rightarrow> WiFiConfigManager \<Rightarrow> int \<Rightarrow> bool \<Rightarrow> (py_error + bool) \<times> heap" where
  "toggle_smart_connect_at h m profile_id enable =
     (case toggle_smart_connect (h (self_config m)) profile_id enable of
        Inl e \<Rightarrow> (Inl e, h)
      | Inr (ok, c) \<Rightarrow> (Inr ok, h(self_config m := c)))"

section \<open>The transport: \<^verbatim>\<open>http.Http\<close>\<close>

text \<open>Decimal notation of an integer, as \<^verbatim>\<open>str\<close> and the format strings print it.\<close>

function str_nat :: "nat \<Rightarrow> string" where
  "str_nat n = (if n < 10 then [''0123456789'' ! n] else str_nat (n div 10) @ [''0123456789'' ! (n mod 10)])"
  by pat_completeness auto
termination
  by (relation "measure id") auto

definition str_int :: "int \<Rightarrow> string" where
  "str_int i = (if i < 0 then ''-'' @ str_nat (nat (- i)) else str_nat (nat i))"

text \<open>\<^verbatim>\<open>key in x\<close> for a string \<open>key\<close>, and \<^verbatim>\<open>x[key]\<close>.\<close>

fun py_contains :: "json \<Rightarrow> string \<Rightarrow> py_error + bool" where
  "py_contains (JDict kvs) k = Inr (map_of kvs k \<noteq> None)"
| "py_contains (JList xs) k = Inr (JStr k \<in> set xs)"
| "py_contains (JStr s) k = Inr (sublist k s)"
| "py_contains _ k = Inl TypeError"

fun py_getitem :: "json \<Rightarrow> string \<Rightarrow> py_error + json" where
  "py_getitem (JDict kvs) k = (case map_of kvs k of None \<Rightarrow> Inl (KeyError k) | Some v \<Rightarrow> Inr v)"
| "py_getitem _ k = Inl TypeError"

text \<open>The integer a value stands for in \<^verbatim>\<open>100 <= code < 200\<close>; other types raise there.\<close>

fun py_int :: "json \<Rightarrow> int option" where
  "py_int (JInt i) = Some i"
| "py_int (JBool b) = Some (if b then 1 else 0)"
| "py_int _ = None"

text \<open>
  The attributes of an \<^verbatim>\<open>Http\<close> object (\<open>sid\<close> is \<open>JNull\<close> for \<^verbatim>\<open>None\<close>), the arguments
  that \<^verbatim>\<open>call\<close> hands to \<^verbatim>\<open>requests.get\<close> (the timeout is the constant 5), and the parts of
  the response that \<^verbatim>\<open>call\<close> reads: the status, the \<^verbatim>\<open>content-type\<close> header when there is
  one, and what \<^verbatim>\<open>response.json()\<close> returns (\<open>None\<close> when it raises). The router is a
  function from the requests sent so far, the current one last, to its reply; \<open>NoReply\<close>
  is \<^verbatim>\<open>requests.get\<close> raising (a timeout, a refused connection). A \<open>world\<close> is the \<^verbatim>\<open>Http\<close>
  object together with the requests sent so far. Every operation returns the world it
  leaves, also when it raises, so that what was sent before a failure stays visible.
\<close>

record http =
  host :: string
  port :: int
  username :: string
  password :: string
  https :: bool
  verify :: bool
  sid :: json

record request =
  req_url :: string
  req_verify :: bool
  req_params :: "(string \<times> json) list"
  req_cookies :: "(string \<times> json) list"
  req_stream :: bool

record response =
  status_code :: int
  content_type :: "string option"
  body :: "json option"

datatype reply = NoReply | Reply response

record world = http +
  sent :: "request list"

record call_args =
  endpoint :: string
  api :: string
  api_method :: string
  version :: int
  params :: "(string \<times> json) list"
  stream :: bool
  restricted :: bool
  retried :: bool
  errors :: "(int \<times> string) list"

datatype call_result = Payload json | Raw response

definition COMMON_ERROR_CODES :: "(int \<times> string) list" where
  "COMMON_ERROR_CODES =
     [(100, ''Unknown error''),
      (101, ''No parameter of API, method or version''),
      (102, ''The requested API does not exist''),
      (103, ''The requested method does not exist''),
      (104, ''The requested version does not support the functionality''),
      (105, ''The logged in session does not have permission''),
      (106, ''Session timeout''),
      (107, ''Session interrupted by duplicate login''),
      (117, ''Need manager rights for operation'')]"

definition get_common_error_message :: "int \<Rightarrow> string" where
  "get_common_error_message code =
     (case map_of COMMON_ERROR_CODES code of
        None \<Rightarrow> ''Unknown common error, please check the documentation''
      | Some m \<Rightarrow> m)"

definition get_base_url :: "'a world_scheme \<Rightarrow> string" where
  "get_base_url w =
     (if https w then ''https'' else ''http'') @ ''://'' @ host w @ '':'' @ str_int (port w) @ ''/webapi''"

text \<open>
  \<^verbatim>\<open>SynologyError.__init__\<close> stores the code and the message and then evaluates
  \<^verbatim>\<open>super(SynologyError).__init__(f"{message} (error={code})")\<close>. With one argument,
  \<^verbatim>\<open>super(SynologyError)\<close> is an unbound super object, and \<^verbatim>\<open>__init__\<close> looked up on it is the
  initialiser of \<^verbatim>\<open>super\<close> itself, which wants a type as its first argument and gets a
  string: Python raises \<^verbatim>\<open>TypeError\<close> inside the constructor. So a statement
  \<^verbatim>\<open>raise SynologyCommonError(code, message)\<close> or \<^verbatim>\<open>raise SynologyApiError(code, message)\<close>
  raises that \<^verbatim>\<open>TypeError\<close>, whatever the class, the code and the message are.
\<close>

definition SynologyError_init :: "(json \<Rightarrow> string \<Rightarrow> py_error) \<Rightarrow> json \<Rightarrow> string \<Rightarrow> py_error" where
  "SynologyError_init cls code message = TypeError"

text \<open>
  What the part of \<^verbatim>\<open>call\<close> after \<^verbatim>\<open>response.json()\<close> does with the decoded data: it raises,
  it returns a value, or it logs in again and repeats the call. \<open>on_error_code\<close> is the
  body of \<^verbatim>\<open>if not data["success"]\<close> once the code is read (lines 142--182).
\<close>

datatype outcome = Raise py_error | Return json | Relogin_and_retry

definition malformed :: py_error where
  "malformed = SynologyHttpException ''The output received by the server is malformed''"


definition on_error_code :: "json \<Rightarrow> bool \<Rightarrow> bool \<Rightarrow> (int \<times> string) list \<Rightarrow> outcome" where
  "on_error_code code is_restricted is_retried known =
     (case py_int code of
        None \<Rightarrow> Raise TypeError
      | Some c \<Rightarrow>
          if 100 \<le> c \<and> c < 200 then
            (let message = get_common_error_message c in
             if c = 106 \<or> c = 107 then
               (if \<not> is_restricted \<or> is_retried
                then Raise (SynologyError_init SynologyCommonError code message)
                else Relogin_and_retry)
             else Raise (SynologyError_init SynologyCommonError code message))
          else
            (let message =
               (case map_of known c of
                  Some m \<Rightarrow> m
                | None \<Rightarrow> ''Unknown API error, please check the documentation'')
             in Raise (SynologyError_init SynologyApiError code message)))"

text \<open>
  The test of lines 134--137. Python evaluates the three membership tests lazily; on a
  value that has no membership test the first one already raises, and on the others none
  does, so evaluating them in a row gives the same result.
\<close>

definition is_malformed :: "json \<Rightarrow> py_error + bool" where
  "is_malformed data =
     (case py_contains data ''success'' of
        Inl e \<Rightarrow> Inl e
      | Inr has_success \<Rightarrow>
     (case py_contains data ''data'' of
        Inl e \<Rightarrow> Inl e
      | Inr has_data \<Rightarrow>
     (case py_contains data ''error'' of
        Inl e \<Rightarrow> Inl e
      | Inr has_error \<Rightarrow> Inr (\<not> has_success \<and> (\<not> has_data \<or> \<not> has_error)))))"

text \<open>Lines 139--186: the branch for \<^verbatim>\<open>success\<close> false and the two returns.\<close>

definition on_checked_data :: "json \<Rightarrow> bool \<Rightarrow> bool \<Rightarrow> (int \<times> string) list \<Rightarrow> outcome" where
  "on_checked_data data is_restricted is_retried known =
     (case py_getitem data ''success'' of
        Inl e \<Rightarrow> Raise e
      | Inr success \<Rightarrow>
          if \<not> py_truthy success then
            (case py_getitem data ''error'' of
               Inl e \<Rightarrow> Raise e
             | Inr err \<Rightarrow>
                 (case py_getitem err ''code'' of
                    Inl e \<Rightarrow> Raise e
                  | Inr code \<Rightarrow> on_error_code code is_restricted is_retried known))
          else
            (case py_contains data ''success'' of
               Inl e \<Rightarrow> Raise e
             | Inr has_success \<Rightarrow>
            (case py_contains data ''data'' of
               Inl e \<Rightarrow> Raise e
             | Inr has_data \<Rightarrow>
                 if has_success \<and> \<not> has_data then Return success
                 else
                   (case py_getitem data ''data'' of
                      Inl e \<Rightarrow> Raise e
                    | Inr d \<Rightarrow> Return d))))"

definition on_data :: "json \<Rightarrow> bool \<Rightarrow> bool \<Rightarrow> (int \<times> string) list \<Rightarrow> outcome" where
  "on_data data is_restricted is_retried known =
     (case is_malformed data of
        Inl e \<Rightarrow> Raise e
      | Inr True \<Rightarrow> Raise malformed
      | Inr False \<Rightarrow> on_checked_data data is_restricted is_retried known)"

text \<open>
  \<^verbatim>\<open>_login\<close> calls the \<^verbatim>\<open>auth.cgi\<close> endpoint without a session and stores
  \<^verbatim>\<open>response["sid"]\<close>. \<open>full_params\<close> is the \<^verbatim>\<open>params\<close> dict after the three assignments
  of lines 108--110; \<^verbatim>\<open>params or {}\<close> and \<^verbatim>\<open>errors or {}\<close> turn \<^verbatim>\<open>None\<close> into the
  empty dict, which the empty list stands for.
\<close>

definition login_args :: "'a world_scheme \<Rightarrow> call_args" where
  "login_args w =
     \<lparr>endpoint = ''auth.cgi'', api = ''SYNO.API.Auth'', api_method = ''Login'', version = 2,
      params = [(''format'', JStr ''sid''), (''account'', JStr (username w)),
                (''passwd'', JStr (password w))],
      stream = False, restricted = False, retried = False,
      errors = [(400, ''No such account or incorrect password''),
                (401, ''Account disabled''),
                (402, ''Permission denied''),
                (403, ''2-step verification code required''),
                (404, ''Failed to authenticate 2-step verification code'')]\<rparr>"

definition subscript_result :: "call_result \<Rightarrow> string \<Rightarrow> py_error + json" where
  "subscript_result r k = (case r of Payload v \<Rightarrow> py_getitem v k | Raw resp \<Rightarrow> Inl TypeError)"

definition full_params :: "call_args \<Rightarrow> (string \<times> json) list" where
  "full_params a =
     AList.update ''version'' (JInt (version a))
       (AList.update ''method'' (JStr (api_method a))
          (AList.update ''api'' (JStr (api a)) (params a)))"

definition request_of :: "world \<Rightarrow> call_args \<Rightarrow> request" where
  "request_of w a =
     \<lparr>req_url = get_base_url w @ ''/'' @ endpoint a,
      req_verify = verify w,
      req_params = full_params a,
      req_cookies = (if sid w \<noteq> JNull then [(''id'', sid w)] else []),
      req_stream = stream a\<rparr>"

text \<open>
  \<^verbatim>\<open>Http.call\<close> and \<^verbatim>\<open>Http._login\<close>, which call each other (the field \<open>api_method\<close> is
  the argument \<^verbatim>\<open>method\<close>). The repeated call receives the
  \<^verbatim>\<open>params\<close> dict as the assignments have left it, \<^verbatim>\<open>restricted=True\<close>, \<^verbatim>\<open>retried=True\<close>,
  and no \<^verbatim>\<open>stream\<close> argument, hence its default \<^verbatim>\<open>False\<close>. The recursion ends because a
  login is an unrestricted call, an unrestricted call never logs in or repeats, and a
  repeated call is not repeated.
\<close>

function call :: "(request list \<Rightarrow> reply) \<Rightarrow> world \<Rightarrow> call_args \<Rightarrow> (py_error + call_result) \<times> world"
  and login :: "(request list \<Rightarrow> reply) \<Rightarrow> world \<Rightarrow> (py_error + unit) \<times> world"
where
  "call server w a =
     (case (if restricted a \<and> sid w = JNull then login server w else (Inr (), w)) of
        (Inl e, w1) \<Rightarrow> (Inl e, w1)
      | (Inr u, w1) \<Rightarrow>
          (let w2 = w1\<lparr>sent := sent w1 @ [request_of w1 a]\<rparr> in
           case server (sent w2) of
             NoReply \<Rightarrow> (Inl RequestException, w2)
           | Reply resp \<Rightarrow>
               if status_code resp \<noteq> 200 then
                 (Inl (SynologyHttpException
                    (''The server answered a wrong status code (code='' @ str_int (status_code resp) @ '')'')), w2)
               else if content_type resp = Some ''application/zip'' then (Inr (Raw resp), w2)
               else
                 (case body resp of
                    None \<Rightarrow> (Inl JSONDecodeError, w2)
                  | Some data \<Rightarrow>
                      (case on_data data (restricted a) (retried a) (errors a) of
                         Raise e \<Rightarrow> (Inl e, w2)
                       | Return v \<Rightarrow> (Inr (Payload v), w2)
                       | Relogin_and_retry \<Rightarrow>
                           (case login server w2 of
                              (Inl e, w3) \<Rightarrow> (Inl e, w3)
                            | (Inr u, w3) \<Rightarrow>
                                call server w3
                                  (a\<lparr>params := full_params a, stream := False,
                                     restricted := True, retried := True\<rparr>))))))"
| "login server w =
     (case call server w (login_args w) of
        (Inl e, w1) \<Rightarrow> (Inl e, w1)
      | (Inr r, w1) \<Rightarrow>
          (case subscript_result r ''sid'' of
             Inl e \<Rightarrow> (Inl e, w1)
           | Inr s \<Rightarrow> (Inr (), w1\<lparr>sid := s\<rparr>)))"
  by pat_completeness auto

termination
proof (relation "measure (\<lambda>x. case x of
          Inl (server, w, a) \<Rightarrow> (if restricted a then (if retried a then 2 else 4) else 0)
        | Inr (server, w) \<Rightarrow> 1)", goal_cases)
  case 1
  show ?case by simp
next
  case (2 server w a)
  then show ?case by simp
next
  case (3 server w a)
  then show ?case
    by (auto simp: on_data_def on_checked_data_def on_error_code_def Let_def
        split: sum.splits option.splits if_splits bool.splits)
next
  case (4 server w a)
  then show ?case
    by (auto simp: on_data_def on_checked_data_def on_error_code_def Let_def
        split: sum.splits option.splits if_splits bool.splits)
next
  case (5 server w)
  show ?case by (simp add: login_args_def)
qed

declare call.simps [simp del] login.simps [simp del]

section \<open>The WiFi namespace: \<^verbatim>\<open>ApiWifi.set_network_setting\<close>\<close>

text \<open>
  The argument is any value of the JSON kind. \<^verbatim>\<open>json.dumps\<close> is the parameter \<open>dumps\<close>.
\<close>

fun is_list :: "json \<Rightarrow> bool" where
  "is_list (JList xs) = True"
| "is_list _ = False"

definition profiles_data_of :: "json \<Rightarrow> py_error + json" where
  "profiles_data_of profiles =
     (if is_dict profiles \<and> py_contains profiles ''profiles'' = Inr True
      then py_getitem profiles ''profiles''
      else if is_list profiles then Inr profiles
      else Inl (ValueError ''Profiles must be a list or dict with 'profiles' key''))"

definition set_network_setting_args :: "string \<Rightarrow> call_args" where
  "set_network_setting_args dumped =
     \<lparr>endpoint = ''entry.cgi'', api = ''SYNO.Wifi.Network.Setting'', api_method = ''set'', version = 1,
      params = [(''profiles'', JStr dumped)],
      stream = False, restricted = True, retried = False, errors = []\<rparr>"

definition set_network_setting ::
  "(json \<Rightarrow> string) \<Rightarrow> (request list \<Rightarrow> reply) \<Rightarrow> world \<Rightarrow> json \<Rightarrow> (py_error + call_result) \<times> world" where
  "set_network_setting dumps server w profiles =
     (case profiles_data_of profiles of
        Inl e \<Rightarrow> (Inl e, w)
      | Inr profiles_data \<Rightarrow> call server w (set_network_setting_args (dumps profiles_data)))"

section \<open>Example snapshots\<close>

text \<open>
  The snapshot of the scenario in the specification: one profile, id 1, Smart Connect off,
  one radio \<^verbatim>\<open>2.4G\<close> named \<^verbatim>\<open>Home\<close>, disabled.
\<close>

definition home_radio :: json where
  "home_radio = JDict [(''radio_type'', JStr ''2.4G''), (''enable'', JBool False), (''ssid'', JStr ''Home'')]"

definition home_profile :: json where
  "home_profile =
     JDict [(''id'', JInt 1), (''enable_smart_connect'', JBool False), (''radio_list'', JList [home_radio])]"

definition home_config :: json where
  "home_config = JDict [(''profiles'', JList [home_profile])]"

text \<open>
  A configuration of three profiles: the one above, a guest profile with Smart Connect on
  and two radios, and a spare profile with Smart Connect off and no radio.
\<close>

definition guest_smart_radio :: json where
  "guest_smart_radio =
     JDict [(''radio_type'', JStr ''SmartConnect''), (''enable'', JBool True), (''ssid'', JStr ''Guest'')]"

definition guest_band_radio :: json where
  "guest_band_radio =
     JDict [(''radio_type'', JStr ''5G-1''), (''enable'', JBool False), (''ssid'', JStr ''Guest5'')]"

definition guest_profile :: json where
  "guest_profile =
     JDict [(''id'', JInt 2), (''enable_smart_connect'', JBool True),
            (''radio_list'', JList [guest_smart_radio, guest_band_radio])]"

definition spare_profile :: json where
  "spare_profile =
     JDict [(''id'', JInt 3), (''enable_smart_connect'', JBool False), (''radio_list'', JList [])]"

definition house_config :: json where
  "house_config = JDict [(''profiles'', JList [home_profile, guest_profile, spare_profile])]"

definition home_heap :: heap where
  "home_heap = (\<lambda>r. if r = 0 then home_config else JNull)"

text \<open>
  A router, a restricted call (that of \<^verbatim>\<open>get_network_setting\<close>), and two servers: one that
  always sends the same JSON document, and one whose sessions are expired whenever they
  are used (it answers code 106 to everything but a login, and a new \<^verbatim>\<open>sid\<close> to a login).
\<close>

definition json_reply :: "json \<Rightarrow> reply" where
  "json_reply d = Reply \<lparr>status_code = 200, content_type = Some ''application/json'', body = Some d\<rparr>"

definition session_timeout :: json where
  "session_timeout = JDict [(''success'', JBool False), (''error'', JDict [(''code'', JInt 106)])]"

definition expiring_server :: "request list \<Rightarrow> reply" where
  "expiring_server trace =
     (if trace = [] then NoReply
      else if map_of (req_params (last trace)) ''api'' = Some (JStr ''SYNO.API.Auth'')
      then json_reply (JDict [(''success'', JBool True), (''data'', JDict [(''sid'', JStr ''fresh'')])])
      else json_reply session_timeout)"

definition router :: world where
  "router = \<lparr>host = ''router'', port = 8001, username = ''admin'', password = ''secret'',
              https = True, verify = True, sid = JStr ''stale'', sent = []\<rparr>"

definition get_network_setting_args :: call_args where
  "get_network_setting_args =
     \<lparr>endpoint = ''entry.cgi'', api = ''SYNO.Wifi.Network.Setting'', api_method = ''get'', version = 1,
      params = [], stream = False, restricted = True, retried = False, errors = []\<rparr>"


definition retry_args :: call_args where
  "retry_args =
     get_network_setting_args
       \<lparr>params := full_params get_network_setting_args, stream := False,
        restricted := True, retried := True\<rparr>"

lemmas transport_defs =
  request_of_def full_params_def login_args_def on_data_def is_malformed_def
  on_checked_data_def on_error_code_def SynologyError_init_def subscript_result_def
  get_common_error_message_def COMMON_ERROR_CODES_def get_base_url_def Let_def

lemmas lookup_defs =
  get_profiles_def locate_profile_def get_profile_by_id_def locate_radio_def get_radio_by_type_def

section \<open>Properties of the lookups\<close>

lemma first_match_found:
  "first_match key wanted xs = Inr (Some (i, x)) \<Longrightarrow>
     i < length xs \<and> xs ! i = x \<and> (\<exists>v. py_get x key JNull = Inr v \<and> wanted v)"
proof (induction xs arbitrary: i)
  case Nil
  then show ?case by simp
next
  case (Cons y ys)
  show ?case
  proof (cases "py_get y key JNull")
    case (Inl e)
    with Cons.prems show ?thesis by simp
  next
    case (Inr v)
    show ?thesis
    proof (cases "wanted v")
      case True
      with Inr Cons.prems show ?thesis by auto
    next
      case False
      with Inr Cons.prems obtain j where
        j: "first_match key wanted ys = Inr (Some (j, x))" and i: "i = Suc j"
        by (auto split: sum.splits option.splits)
      from Cons.IH [OF j] i show ?thesis by simp
    qed
  qed
qed

lemma py_get_truthy:
  "py_get x key JNull = Inr v \<Longrightarrow> v \<noteq> JNull \<Longrightarrow> py_truthy x"
  by (cases x) (auto split: option.splits)

lemma py_get_is_dict: "py_get x k d = Inr v \<Longrightarrow> \<exists>kvs. x = JDict kvs"
  by (cases x) auto

lemma first_match_truthy:
  "first_match key wanted xs = Inr (Some (i, x)) \<Longrightarrow> \<not> wanted JNull \<Longrightarrow> py_truthy x"
  by (drule first_match_found) (auto dest: py_get_truthy)

lemma locate_profile_truthy:
  "locate_profile config pid = Inr (Some (i, p)) \<Longrightarrow> py_truthy p"
  unfolding locate_profile_def
  by (auto split: sum.splits dest: first_match_truthy)

lemma locate_profile_found:
  "locate_profile config pid = Inr (Some (i, p)) \<Longrightarrow> \<exists>kvs. p = JDict kvs"
  unfolding locate_profile_def
  by (auto split: sum.splits dest!: first_match_found dest: py_get_is_dict)

lemma get_profile_by_id_truthy:
  "get_profile_by_id config pid = Inr (Some p) \<Longrightarrow> py_truthy p"
  unfolding get_profile_by_id_def
  by (auto split: sum.splits dest: locate_profile_truthy)

lemma first_match_none:
  "list_all is_dict xs \<Longrightarrow>
     \<not> list_ex (\<lambda>x. case py_get x key JNull of Inr v \<Rightarrow> wanted v | Inl e \<Rightarrow> False) xs \<Longrightarrow>
     first_match key wanted xs = Inr None"
proof (induction xs)
  case Nil
  then show ?case by simp
next
  case (Cons x xs)
  then show ?case by (cases x) (auto split: option.splits)
qed

lemma locate_profile_absent:
  assumes "wf_profiles config" and "\<not> list_ex (profile_has_id pid) (profiles_of config)"
  shows "locate_profile config pid = Inr None"
proof -
  from assms(1) obtain ps where ps: "get_profiles config = Inr (JList ps)" "list_all is_dict ps"
    by (auto simp: wf_profiles_def split: sum.splits json.splits)
  with assms(2) have
    "\<not> list_ex (\<lambda>x. case py_get x ''id'' JNull of Inr v \<Rightarrow> py_eq_int v pid | Inl e \<Rightarrow> False) ps"
    by (simp add: profiles_of_def profile_has_id_def [abs_def])
  with ps show ?thesis by (simp add: locate_profile_def first_match_none)
qed

section \<open>The lookups find what the configuration holds\<close>

text \<open>
  On a configuration whose profiles are dicts, \<^verbatim>\<open>get_profile_by_id\<close> returns the first
  profile that answers to the id, and \<^verbatim>\<open>None\<close> when there is none; within a profile whose
  radios are dicts, \<^verbatim>\<open>get_radio_by_type\<close> returns the first radio of the type.
\<close>

lemma first_match_find:
  "list_all is_dict xs \<Longrightarrow>
     \<exists>r. first_match key wanted xs = Inr r \<and>
       map_option snd r =
         find (\<lambda>x. case py_get x key JNull of Inr v \<Rightarrow> wanted v | Inl e \<Rightarrow> False) xs"
proof (induction xs)
  case Nil
  then show ?case by simp
next
  case (Cons x xs)
  from Cons.prems obtain kvs where x: "x = JDict kvs" by (cases x) auto
  from Cons obtain r where r: "first_match key wanted xs = Inr r"
    "map_option snd r =
       find (\<lambda>x. case py_get x key JNull of Inr v \<Rightarrow> wanted v | Inl e \<Rightarrow> False) xs"
    by auto
  show ?case
  proof (cases "wanted (case map_of kvs key of None \<Rightarrow> JNull | Some v \<Rightarrow> v)")
    case True
    then show ?thesis by (simp add: x)
  next
    case False
    with r show ?thesis by (cases r) (auto simp: x)
  qed
qed

lemma wf_config_profiles: "wf_config config \<Longrightarrow> wf_profiles config"
proof -
  have wd: "wf_profile p \<Longrightarrow> is_dict p" for p
    by (cases p) (auto simp: wf_profile_def)
  assume "wf_config config"
  then show ?thesis
    by (auto simp: wf_config_def wf_profiles_def list_all_iff split: sum.splits json.splits dest: wd)
qed

lemma get_profile_by_id_find:
  assumes "wf_profiles config"
  shows "get_profile_by_id config pid = Inr (find (profile_has_id pid) (profiles_of config))"
proof -
  from assms obtain ps where ps: "get_profiles config = Inr (JList ps)" "list_all is_dict ps"
    by (auto simp: wf_profiles_def split: sum.splits json.splits)
  from first_match_find [OF ps(2), of "''id''" "\<lambda>v. py_eq_int v pid"] obtain r where
    r: "first_match ''id'' (\<lambda>v. py_eq_int v pid) ps = Inr r"
       "map_option snd r = find (profile_has_id pid) ps"
    by (auto simp: profile_has_id_def [abs_def])
  with ps show ?thesis
    by (simp add: get_profile_by_id_def locate_profile_def profiles_of_def)
qed

lemma get_radio_by_type_find:
  assumes "wf_profiles config" and "find (profile_has_id pid) (profiles_of config) = Some p"
    and "wf_profile p"
  shows "get_radio_by_type config pid t = Inr (find (radio_has_type t) (radios_of p))"
proof -
  from get_profile_by_id_find [OF assms(1), of pid] assms(2)
  have "get_profile_by_id config pid = Inr (Some p)" by simp
  then obtain i where lp: "locate_profile config pid = Inr (Some (i, p))"
    by (auto simp: get_profile_by_id_def split: sum.splits)
  then have tr: "py_truthy p" by (rule locate_profile_truthy)
  from assms(3) obtain rs where rs: "py_get p ''radio_list'' (JList []) = Inr (JList rs)"
    "list_all is_dict rs"
    by (auto simp: wf_profile_def split: sum.splits json.splits)
  from first_match_find [OF rs(2), of "''radio_type''" "\<lambda>v. py_eq_str v t"] obtain r where
    r: "first_match ''radio_type'' (\<lambda>v. py_eq_str v t) rs = Inr r"
       "map_option snd r = find (radio_has_type t) rs"
    by (auto simp: radio_has_type_def [abs_def])
  from rs have ro: "radios_of p = rs" by (simp add: radios_of_def)
  from lp tr rs r ro show ?thesis
    by (cases r) (auto simp: get_radio_by_type_def locate_radio_def)
qed

text \<open>
  Where ids are unique, as the data model says, the profile with an id is any profile of
  the configuration that answers to it.
\<close>

lemma find_unique:
  "x \<in> set xs \<Longrightarrow> P x \<Longrightarrow> (\<forall>y \<in> set xs. P y \<longrightarrow> y = x) \<Longrightarrow> find P xs = Some x"
proof (induction xs)
  case Nil
  then show ?case by simp
next
  case (Cons a xs)
  show ?case
  proof (cases "P a")
    case True
    with Cons.prems(3) have "a = x" by simp
    with True show ?thesis by simp
  next
    case False
    with Cons.prems(1,2) have "x \<in> set xs" by auto
    moreover from Cons.prems(3) have "\<forall>y \<in> set xs. P y \<longrightarrow> y = x" by simp
    ultimately have "find P xs = Some x" using Cons.prems(2) by (intro Cons.IH)
    with False show ?thesis by simp
  qed
qed


section \<open>Availability\<close>

text \<open>
  Claim C2. In a configuration whose profiles are dicts: if the profile with the id has
  \<^verbatim>\<open>enable_smart_connect\<close> true, \<^verbatim>\<open>is_radio_available\<close> answers true for \<^verbatim>\<open>SmartConnect\<close>
  and false for each of \<^verbatim>\<open>2.4G\<close>, \<^verbatim>\<open>5G-1\<close>, \<^verbatim>\<open>5G-2\<close>; if it has the flag false, the answers
  are the other way round; and if no profile of the configuration answers to the id, the
  answer is false for every radio type.
\<close>

theorem availability_mutual_exclusion:
  assumes "wf_profiles config"
  shows
  "(\<forall>p. find (profile_has_id pid) (profiles_of config) = Some p \<and>
      py_get p ''enable_smart_connect'' (JBool False) = Inr (JBool True) \<longrightarrow>
        is_radio_available config pid ''SmartConnect'' = Inr (JBool True) \<and>
        (\<forall>t \<in> {''2.4G'', ''5G-1'', ''5G-2''}. is_radio_available config pid t = Inr (JBool False)))
   \<and> (\<forall>p. find (profile_has_id pid) (profiles_of config) = Some p \<and>
      py_get p ''enable_smart_connect'' (JBool False) = Inr (JBool False) \<longrightarrow>
        is_radio_available config pid ''SmartConnect'' = Inr (JBool False) \<and>
        (\<forall>t \<in> {''2.4G'', ''5G-1'', ''5G-2''}. is_radio_available config pid t = Inr (JBool True)))
   \<and> (\<not> list_ex (profile_has_id pid) (profiles_of config) \<longrightarrow>
        (\<forall>t. is_radio_available config pid t = Inr (JBool False)))"
proof (intro conjI allI impI)
  fix p
  assume a: "find (profile_has_id pid) (profiles_of config) = Some p \<and>
      py_get p ''enable_smart_connect'' (JBool False) = Inr (JBool True)"
  with get_profile_by_id_find [OF assms, of pid]
  have g: "get_profile_by_id config pid = Inr (Some p)" by simp
  from g have "py_truthy p" by (rule get_profile_by_id_truthy)
  with g a show "is_radio_available config pid ''SmartConnect'' = Inr (JBool True)"
    and "\<forall>t \<in> {''2.4G'', ''5G-1'', ''5G-2''}. is_radio_available config pid t = Inr (JBool False)"
    by (simp_all add: is_radio_available_def)
next
  fix p
  assume a: "find (profile_has_id pid) (profiles_of config) = Some p \<and>
      py_get p ''enable_smart_connect'' (JBool False) = Inr (JBool False)"
  with get_profile_by_id_find [OF assms, of pid]
  have g: "get_profile_by_id config pid = Inr (Some p)" by simp
  from g have "py_truthy p" by (rule get_profile_by_id_truthy)
  with g a show "is_radio_available config pid ''SmartConnect'' = Inr (JBool False)"
    and "\<forall>t \<in> {''2.4G'', ''5G-1'', ''5G-2''}. is_radio_available config pid t = Inr (JBool True)"
    by (simp_all add: is_radio_available_def)
next
  fix t
  assume "\<not> list_ex (profile_has_id pid) (profiles_of config)"
  then have "find (profile_has_id pid) (profiles_of config) = None"
    by (simp add: find_None_iff list_ex_iff)
  with get_profile_by_id_find [OF assms, of pid]
  have "get_profile_by_id config pid = Inr None" by simp
  then show "is_radio_available config pid t = Inr (JBool False)"
    by (simp add: is_radio_available_def)
qed


theorem availability_mutual_exclusion_witness:
  "wf_profiles house_config \<and>
   find (profile_has_id 2) (profiles_of house_config) = Some guest_profile \<and>
   py_get guest_profile ''enable_smart_connect'' (JBool False) = Inr (JBool True) \<and>
   is_radio_available house_config 2 ''SmartConnect'' = Inr (JBool True) \<and>
   is_radio_available house_config 2 ''2.4G'' = Inr (JBool False) \<and>
   is_radio_available house_config 2 ''5G-1'' = Inr (JBool False) \<and>
   is_radio_available house_config 2 ''5G-2'' = Inr (JBool False) \<and>
   find (profile_has_id 3) (profiles_of house_config) = Some spare_profile \<and>
   py_get spare_profile ''enable_smart_connect'' (JBool False) = Inr (JBool False) \<and>
   is_radio_available house_config 3 ''SmartConnect'' = Inr (JBool False) \<and>
   is_radio_available house_config 3 ''2.4G'' = Inr (JBool True) \<and>
   is_radio_available house_config 3 ''5G-1'' = Inr (JBool True) \<and>
   is_radio_available house_config 3 ''5G-2'' = Inr (JBool True) \<and>
   \<not> list_ex (profile_has_id 7) (profiles_of house_config) \<and>
   is_radio_available house_config 7 ''2.4G'' = Inr (JBool False)"
proof -
  have w: "wf_profiles house_config"
    by (simp add: wf_profiles_def get_profiles_def house_config_def home_profile_def
        guest_profile_def spare_profile_def)
  have ps: "profiles_of house_config = [home_profile, guest_profile, spare_profile]"
    by (simp add: profiles_of_def get_profiles_def house_config_def)
  have g: "find (profile_has_id 2) (profiles_of house_config) = Some guest_profile"
    by (simp add: ps profile_has_id_def home_profile_def guest_profile_def)
  have gf: "py_get guest_profile ''enable_smart_connect'' (JBool False) = Inr (JBool True)"
    by (simp add: guest_profile_def)
  have s: "find (profile_has_id 3) (profiles_of house_config) = Some spare_profile"
    by (simp add: ps profile_has_id_def home_profile_def guest_profile_def spare_profile_def)
  have sf: "py_get spare_profile ''enable_smart_connect'' (JBool False) = Inr (JBool False)"
    by (simp add: spare_profile_def)
  have n: "\<not> list_ex (profile_has_id 7) (profiles_of house_config)"
    by (simp add: ps profile_has_id_def home_profile_def guest_profile_def spare_profile_def)
  note on = availability_mutual_exclusion [OF w, of 2, THEN conjunct1, rule_format,
      of guest_profile]
  note off = availability_mutual_exclusion [OF w, of 3, THEN conjunct2, THEN conjunct1,
      rule_format, of spare_profile]
  note absent = availability_mutual_exclusion [OF w, of 7, THEN conjunct2, THEN conjunct2,
      rule_format, OF n, of "''2.4G''"]
  from on g gf have 1: "is_radio_available house_config 2 ''SmartConnect'' = Inr (JBool True)"
    and 2: "is_radio_available house_config 2 ''2.4G'' = Inr (JBool False)"
    and 3: "is_radio_available house_config 2 ''5G-1'' = Inr (JBool False)"
    and 4: "is_radio_available house_config 2 ''5G-2'' = Inr (JBool False)"
    by simp_all
  from off s sf have 5: "is_radio_available house_config 3 ''SmartConnect'' = Inr (JBool False)"
    and 6: "is_radio_available house_config 3 ''2.4G'' = Inr (JBool True)"
    and 7: "is_radio_available house_config 3 ''5G-1'' = Inr (JBool True)"
    and 8: "is_radio_available house_config 3 ''5G-2'' = Inr (JBool True)"
    by simp_all
  from w g gf 1 2 3 4 s sf 5 6 7 8 n absent show ?thesis by (intro conjI)
qed

text \<open>
  Claim C10. In a configuration whose profiles are dicts, for the profile with the id and a
  radio type other than \<^verbatim>\<open>SmartConnect\<close>, \<^verbatim>\<open>is_radio_available\<close> is the negation of the
  profile's \<^verbatim>\<open>enable_smart_connect\<close> value (false when the key is missing), whatever the
  type string is and whatever the radio list of the profile holds: the list is never read.
\<close>

theorem availability_ignores_radio_list:
  assumes "wf_profiles config" and "find (profile_has_id pid) (profiles_of config) = Some p"
    and "t \<noteq> ''SmartConnect''"
  shows "is_radio_available config pid t =
           Inr (JBool (\<not> py_truthy (value_or p ''enable_smart_connect'' (JBool False))))"
proof -
  from get_profile_by_id_find [OF assms(1), of pid] assms(2)
  have g: "get_profile_by_id config pid = Inr (Some p)" by simp
  then obtain i where "locate_profile config pid = Inr (Some (i, p))"
    by (auto simp: get_profile_by_id_def split: sum.splits)
  then obtain kvs where kvs: "p = JDict kvs" by (auto dest: locate_profile_found)
  from g have "py_truthy p" by (rule get_profile_by_id_truthy)
  with g assms(3) kvs show ?thesis by (simp add: is_radio_available_def)
qed


theorem availability_ignores_radio_list_witness:
  "wf_profiles house_config \<and>
   find (profile_has_id 3) (profiles_of house_config) = Some spare_profile \<and>
   ''6G'' \<noteq> ''SmartConnect'' \<and>
   radios_of spare_profile = [] \<and>
   value_or spare_profile ''enable_smart_connect'' (JBool False) = JBool False \<and>
   is_radio_available house_config 3 ''6G'' = Inr (JBool True)"
proof -
  have w: "wf_profiles house_config"
    by (simp add: wf_profiles_def get_profiles_def house_config_def home_profile_def
        guest_profile_def spare_profile_def)
  have ps: "profiles_of house_config = [home_profile, guest_profile, spare_profile]"
    by (simp add: profiles_of_def get_profiles_def house_config_def)
  have s: "find (profile_has_id 3) (profiles_of house_config) = Some spare_profile"
    by (simp add: ps profile_has_id_def home_profile_def guest_profile_def spare_profile_def)
  have t: "''6G'' \<noteq> ''SmartConnect''" by simp
  have r: "radios_of spare_profile = []" by (simp add: radios_of_def spare_profile_def)
  have f: "value_or spare_profile ''enable_smart_connect'' (JBool False) = JBool False"
    by (simp add: spare_profile_def)
  from availability_ignores_radio_list [OF w s t] f
  have a: "is_radio_available house_config 3 ''6G'' = Inr (JBool True)" by simp
  from w s t r f a show ?thesis by (intro conjI)
qed

section \<open>An unknown profile id\<close>

text \<open>
  Claim C8. In a configuration whose profiles are dicts and none of which answers to the
  id, no operation of the model raises, and each returns its absence value:
  \<^verbatim>\<open>get_profile_by_id\<close> and \<^verbatim>\<open>get_radio_by_type\<close> return \<^verbatim>\<open>None\<close>;
  \<^verbatim>\<open>is_radio_available\<close>, \<^verbatim>\<open>is_radio_enabled\<close> and \<^verbatim>\<open>is_smart_connect_enabled\<close> return
  \<^verbatim>\<open>False\<close>; \<^verbatim>\<open>enable_radio\<close> and \<^verbatim>\<open>toggle_smart_connect\<close> return \<^verbatim>\<open>False\<close> and leave the
  configuration as it was.
\<close>

theorem unknown_profile_absence:
  assumes "wf_profiles config" and "\<not> list_ex (profile_has_id pid) (profiles_of config)"
  shows "get_profile_by_id config pid = Inr None \<and>
         get_radio_by_type config pid t = Inr None \<and>
         is_radio_available config pid t = Inr (JBool False) \<and>
         is_radio_enabled config pid t = Inr (JBool False) \<and>
         is_smart_connect_enabled config pid = Inr (JBool False) \<and>
         enable_radio config pid t v = Inr (False, config) \<and>
         toggle_smart_connect config pid v = Inr (False, config)"
proof -
  have l: "locate_profile config pid = Inr None" using assms by (rule locate_profile_absent)
  then have g: "get_profile_by_id config pid = Inr None" by (simp add: get_profile_by_id_def)
  from l have r: "locate_radio config pid t = Inr None" by (simp add: locate_radio_def)
  then have gr: "get_radio_by_type config pid t = Inr None" by (simp add: get_radio_by_type_def)
  show ?thesis using l g r gr
    by (simp add: is_radio_available_def is_radio_enabled_def is_smart_connect_enabled_def
        enable_radio_def toggle_smart_connect_def)
qed

theorem unknown_profile_absence_witness:
  "wf_profiles home_config \<and>
   \<not> list_ex (profile_has_id 7) (profiles_of home_config) \<and>
   get_profile_by_id home_config 7 = Inr None \<and>
   get_radio_by_type home_config 7 ''2.4G'' = Inr None \<and>
   is_radio_available home_config 7 ''2.4G'' = Inr (JBool False) \<and>
   is_radio_enabled home_config 7 ''2.4G'' = Inr (JBool False) \<and>
   is_smart_connect_enabled home_config 7 = Inr (JBool False) \<and>
   enable_radio home_config 7 ''2.4G'' True = Inr (False, home_config) \<and>
   toggle_smart_connect home_config 7 True = Inr (False, home_config)"
proof -
  have w: "wf_profiles home_config"
    by (simp add: wf_profiles_def get_profiles_def home_radio_def home_profile_def home_config_def)
  have a: "\<not> list_ex (profile_has_id 7) (profiles_of home_config)"
    by (simp add: profiles_of_def profile_has_id_def get_profiles_def
        home_radio_def home_profile_def home_config_def)
  show ?thesis
    using w a unknown_profile_absence [OF w a, of "''2.4G''" True] by simp
qed

section \<open>Mutation of a radio\<close>

lemma first_match_elem_dict:
  "first_match key wanted xs = Inr (Some (i, x)) \<Longrightarrow> i < length xs \<and> xs ! i = x \<and> is_dict x"
  by (drule first_match_found) (auto dest: py_get_is_dict)

lemma first_match_of_iter:
  assumes "py_iter c = Inr xs" and "first_match key wanted xs = Inr (Some (i, x))"
  shows "c = JList xs"
proof -
  from first_match_elem_dict [OF assms(2)] have d: "i < length xs" "is_dict (xs ! i)" by simp_all
  show ?thesis
  proof (cases c)
    case (JDict kvs)
    with assms(1) have xs: "xs = map (\<lambda>kv. JStr (fst kv)) kvs" by simp
    with d show ?thesis by simp
  next
    case (JStr s)
    with assms(1) have xs: "xs = map (\<lambda>c. JStr [c]) s" by simp
    with d show ?thesis by simp
  next
    case (JList ys)
    with assms(1) show ?thesis by simp
  next
    case JNull
    with assms(1) show ?thesis by simp
  next
    case (JBool b)
    with assms(1) show ?thesis by simp
  next
    case (JInt n)
    with assms(1) show ?thesis by simp
  qed
qed

lemma locate_profile_shape:
  assumes "locate_profile config pid = Inr (Some (i, p))"
  shows "\<exists>kvs ps. config = JDict kvs \<and> map_of kvs ''profiles'' = Some (JList ps) \<and>
           i < length ps \<and> ps ! i = p \<and>
           first_match ''id'' (\<lambda>v. py_eq_int v pid) ps = Inr (Some (i, p))"
proof -
  from assms obtain c xs where c: "get_profiles config = Inr c" and xs: "py_iter c = Inr xs"
    and fm: "first_match ''id'' (\<lambda>v. py_eq_int v pid) xs = Inr (Some (i, p))"
    by (auto simp: locate_profile_def split: sum.splits)
  from xs fm have cl: "c = JList xs" by (rule first_match_of_iter)
  from c obtain kvs where kvs: "config = JDict kvs"
    by (auto simp: get_profiles_def dest: py_get_is_dict)
  from fm have i: "i < length xs" "xs ! i = p" by (auto dest: first_match_found)
  with c cl kvs have "map_of kvs ''profiles'' = Some (JList xs)"
    by (auto simp: get_profiles_def split: option.splits)
  with kvs i fm show ?thesis by blast
qed

lemma locate_radio_shape:
  assumes "locate_radio config pid t = Inr (Some (i, j, r))"
  shows "\<exists>kvs ps pkvs rs. config = JDict kvs \<and> map_of kvs ''profiles'' = Some (JList ps) \<and>
           i < length ps \<and> ps ! i = JDict pkvs \<and>
           first_match ''id'' (\<lambda>v. py_eq_int v pid) ps = Inr (Some (i, JDict pkvs)) \<and>
           map_of pkvs ''radio_list'' = Some (JList rs) \<and> j < length rs \<and> rs ! j = r \<and>
           first_match ''radio_type'' (\<lambda>v. py_eq_str v t) rs = Inr (Some (j, r))"
proof -
  from assms obtain p where lp: "locate_profile config pid = Inr (Some (i, p))"
    by (auto simp: locate_radio_def split: sum.splits option.splits if_splits)
  from locate_profile_shape [OF lp] obtain kvs ps where
    s: "config = JDict kvs" "map_of kvs ''profiles'' = Some (JList ps)" "i < length ps" "ps ! i = p"
       "first_match ''id'' (\<lambda>v. py_eq_int v pid) ps = Inr (Some (i, p))"
    by blast
  from lp obtain pkvs where pk: "p = JDict pkvs" by (auto dest: locate_profile_found)
  from assms lp obtain c rs where c: "py_get p ''radio_list'' (JList []) = Inr c"
    and rs: "py_iter c = Inr rs"
    and fm: "first_match ''radio_type'' (\<lambda>v. py_eq_str v t) rs = Inr (Some (j, r))"
    by (auto simp: locate_radio_def split: sum.splits option.splits if_splits)
  from rs fm have cl: "c = JList rs" by (rule first_match_of_iter)
  from fm have j: "j < length rs" "rs ! j = r" by (auto dest: first_match_found)
  with c cl pk have "map_of pkvs ''radio_list'' = Some (JList rs)"
    by (auto split: option.splits)
  with s pk j fm show ?thesis
    by (intro exI [of _ kvs] exI [of _ ps] exI [of _ pkvs] exI [of _ rs]) simp
qed

lemma first_match_total:
  "list_all is_dict xs \<Longrightarrow> \<exists>r. first_match key wanted xs = Inr r"
proof (induction xs)
  case Nil
  then show ?case by simp
next
  case (Cons x xs)
  then show ?case by (cases x) (auto split: option.splits sum.splits)
qed

lemma first_match_update:
  "first_match key wanted xs = Inr (Some (i, x)) \<Longrightarrow>
     py_get x' key JNull = py_get x key JNull \<Longrightarrow>
     first_match key wanted (xs[i := x']) = Inr (Some (i, x'))"
proof (induction xs arbitrary: i)
  case Nil
  then show ?case by simp
next
  case (Cons y ys)
  show ?case
  proof (cases "py_get y key JNull")
    case (Inl e)
    with Cons.prems show ?thesis by simp
  next
    case (Inr v)
    show ?thesis
    proof (cases "wanted v")
      case True
      with Inr Cons.prems show ?thesis by auto
    next
      case False
      with Inr Cons.prems obtain j where
        j: "first_match key wanted ys = Inr (Some (j, x))" and i: "i = Suc j"
        by (auto split: sum.splits option.splits)
      from Cons.IH [OF j Cons.prems(2)] i Inr False show ?thesis by simp
    qed
  qed
qed

lemma py_get_update_other:
  "k' \<noteq> k \<Longrightarrow> py_get (JDict (AList.update k v kvs)) k' d = py_get (JDict kvs) k' d"
  by (simp add: update_conv')

lemma at_radio_eval:
  assumes "map_of kvs ''profiles'' = Some (JList ps)" "i < length ps" "ps ! i = JDict pkvs"
    "map_of pkvs ''radio_list'' = Some (JList rs)" "j < length rs"
  shows "at_radio i j f (JDict kvs) =
     JDict (AList.update ''profiles''
       (JList (ps[i := JDict (AList.update ''radio_list'' (JList (rs[j := f (rs ! j)])) pkvs)])) kvs)"
  using assms by (simp add: at_radio_def at_profile_def)

lemma locate_radio_total:
  assumes "wf_config config"
  shows "\<exists>r. locate_radio config pid t = Inr r"
proof -
  from assms obtain ps where ps: "get_profiles config = Inr (JList ps)" "list_all wf_profile ps"
    by (auto simp: wf_config_def split: sum.splits json.splits)
  have wd: "wf_profile p \<Longrightarrow> is_dict p" for p
    by (cases p) (auto simp: wf_profile_def)
  from ps(2) have "list_all is_dict ps" by (auto simp: list_all_iff dest: wd)
  then obtain r where r: "first_match ''id'' (\<lambda>v. py_eq_int v pid) ps = Inr r"
    using first_match_total by blast
  with ps have lp: "locate_profile config pid = Inr r" by (simp add: locate_profile_def)
  show ?thesis
  proof (cases r)
    case None
    with lp show ?thesis by (simp add: locate_radio_def)
  next
    case (Some ip)
    obtain i p where ip: "ip = (i, p)" by (cases ip)
    with Some r have "i < length ps" "ps ! i = p" by (auto dest: first_match_found)
    with ps(2) have "wf_profile p" by (auto simp: list_all_iff)
    then obtain rs where rs: "py_get p ''radio_list'' (JList []) = Inr (JList rs)" "list_all is_dict rs"
      by (auto simp: wf_profile_def split: sum.splits json.splits)
    from rs(2) obtain q where "first_match ''radio_type'' (\<lambda>v. py_eq_str v t) rs = Inr q"
      using first_match_total by blast
    with lp Some ip rs show ?thesis
      by (cases q) (auto simp: locate_radio_def)
  qed
qed

lemma locate_radio_truthy:
  assumes "locate_radio config pid t = Inr (Some (i, j, r))"
  shows "py_truthy r"
proof -
  from locate_radio_shape [OF assms] obtain rs where
    "first_match ''radio_type'' (\<lambda>v. py_eq_str v t) rs = Inr (Some (j, r))" by blast
  then show ?thesis by (rule first_match_truthy) simp
qed

lemma enable_radio_found:
  assumes "locate_radio config pid t = Inr (Some (i, j, r))"
  shows "enable_radio config pid t v =
           Inr (True, at_radio i j (\<lambda>r. py_setitem r ''enable'' (JBool v)) config)"
  using assms locate_radio_truthy [OF assms] by (simp add: enable_radio_def)

lemma enable_radio_frame_found:
  assumes "locate_radio config pid t = Inr (Some (i, j, r))"
  shows "\<exists>config'. enable_radio config pid t v = Inr (True, config') \<and>
        (\<forall>k. k \<noteq> ''profiles'' \<longrightarrow> field config' k = field config k) \<and>
        length (profiles_of config') = length (profiles_of config) \<and>
        (\<forall>i'. i' \<noteq> i \<longrightarrow> profiles_of config' ! i' = profiles_of config ! i') \<and>
        (\<forall>k. k \<noteq> ''radio_list'' \<longrightarrow>
           field (profiles_of config' ! i) k = field (profiles_of config ! i) k) \<and>
        length (radios_of (profiles_of config' ! i)) = length (radios_of (profiles_of config ! i)) \<and>
        (\<forall>j'. j' \<noteq> j \<longrightarrow>
           radios_of (profiles_of config' ! i) ! j' = radios_of (profiles_of config ! i) ! j') \<and>
        radios_of (profiles_of config ! i) ! j = r \<and>
        (\<forall>k. k \<noteq> ''enable'' \<longrightarrow> field (radios_of (profiles_of config' ! i) ! j) k = field r k) \<and>
        field (radios_of (profiles_of config' ! i) ! j) ''enable'' = Some (JBool v)"
proof -
  from locate_radio_shape [OF assms] obtain kvs ps pkvs rs where
    c: "config = JDict kvs" and
    s: "map_of kvs ''profiles'' = Some (JList ps)" "i < length ps"
       "ps ! i = JDict pkvs" "map_of pkvs ''radio_list'' = Some (JList rs)" "j < length rs" "rs ! j = r"
    by blast
  from assms have "\<exists>rk. r = JDict rk"
    using first_match_elem_dict locate_radio_shape [OF assms] by (metis is_dict.elims(2))
  then obtain rk where rk: "r = JDict rk" by blast
  let ?r' = "JDict (AList.update ''enable'' (JBool v) rk)"
  let ?p' = "JDict (AList.update ''radio_list'' (JList (rs[j := ?r'])) pkvs)"
  let ?c' = "JDict (AList.update ''profiles'' (JList (ps[i := ?p'])) kvs)"
  have "at_radio i j (\<lambda>r. py_setitem r ''enable'' (JBool v)) config = ?c'"
    using c s rk by (simp add: at_radio_eval)
  with enable_radio_found [OF assms, of v]
  have e: "enable_radio config pid t v = Inr (True, ?c')" by simp
  have po: "profiles_of config = ps" using c s by (simp add: profiles_of_def get_profiles_def)
  have po': "profiles_of ?c' = ps[i := ?p']"
    by (simp add: profiles_of_def get_profiles_def update_conv')
  have ro: "radios_of (JDict pkvs) = rs" using s by (simp add: radios_of_def)
  have ro': "radios_of ?p' = rs[j := ?r']" by (simp add: radios_of_def update_conv')
  have 1: "\<forall>k. k \<noteq> ''profiles'' \<longrightarrow> field ?c' k = field config k"
    using c by (simp add: update_conv')
  have 2: "length (profiles_of ?c') = length (profiles_of config)" by (simp add: po po')
  have 3: "\<forall>i'. i' \<noteq> i \<longrightarrow> profiles_of ?c' ! i' = profiles_of config ! i'"
    by (simp add: po po')
  have pi: "profiles_of ?c' ! i = ?p'" using s by (simp add: po')
  have 4: "\<forall>k. k \<noteq> ''radio_list'' \<longrightarrow> field (profiles_of ?c' ! i) k = field (profiles_of config ! i) k"
    using s by (simp add: pi po update_conv')
  have 5: "length (radios_of (profiles_of ?c' ! i)) = length (radios_of (profiles_of config ! i))"
    using s by (simp add: pi po ro ro')
  have 6: "\<forall>j'. j' \<noteq> j \<longrightarrow>
      radios_of (profiles_of ?c' ! i) ! j' = radios_of (profiles_of config ! i) ! j'"
    using s by (simp add: pi po ro ro')
  have 7: "radios_of (profiles_of config ! i) ! j = r" using s by (simp add: po ro)
  have rj: "radios_of (profiles_of ?c' ! i) ! j = ?r'" using s by (simp add: pi ro')
  have 8: "\<forall>k. k \<noteq> ''enable'' \<longrightarrow> field (radios_of (profiles_of ?c' ! i) ! j) k = field r k"
    using rk by (simp add: rj update_conv')
  have 9: "field (radios_of (profiles_of ?c' ! i) ! j) ''enable'' = Some (JBool v)"
    by (simp add: rj update_conv')
  from e 1 2 3 4 5 6 7 8 9 show ?thesis
    by (intro exI [of _ ?c'] conjI)
qed

text \<open>
  Claim C6. \<^verbatim>\<open>enable_radio\<close> returns (it does not raise) on every configuration of the
  shape the type hints give. When \<^verbatim>\<open>get_radio_by_type\<close> finds no radio it returns
  \<^verbatim>\<open>False\<close> and the configuration is unchanged. When the radio is found, at position \<open>j\<close>
  of the radio list of the profile at position \<open>i\<close>, it returns \<^verbatim>\<open>True\<close> and the new
  configuration differs from the old one in nothing but the \<^verbatim>\<open>enable\<close> key of that radio:
  the other keys of the configuration, the number of profiles, every other profile, the
  other keys of that profile, the number of its radios, every other radio and the other
  keys of that radio are as before; \<^verbatim>\<open>enable\<close> holds the value passed.
\<close>

theorem enable_radio_frame:
  "(wf_config config \<longrightarrow> (\<exists>ok config'. enable_radio config pid t v = Inr (ok, config'))) \<and>
   (get_radio_by_type config pid t = Inr None \<longrightarrow> enable_radio config pid t v = Inr (False, config)) \<and>
   (\<forall>i j r. locate_radio config pid t = Inr (Some (i, j, r)) \<longrightarrow>
      (\<exists>config'. enable_radio config pid t v = Inr (True, config') \<and>
        (\<forall>k. k \<noteq> ''profiles'' \<longrightarrow> field config' k = field config k) \<and>
        length (profiles_of config') = length (profiles_of config) \<and>
        (\<forall>i'. i' \<noteq> i \<longrightarrow> profiles_of config' ! i' = profiles_of config ! i') \<and>
        (\<forall>k. k \<noteq> ''radio_list'' \<longrightarrow>
           field (profiles_of config' ! i) k = field (profiles_of config ! i) k) \<and>
        length (radios_of (profiles_of config' ! i)) = length (radios_of (profiles_of config ! i)) \<and>
        (\<forall>j'. j' \<noteq> j \<longrightarrow>
           radios_of (profiles_of config' ! i) ! j' = radios_of (profiles_of config ! i) ! j') \<and>
        radios_of (profiles_of config ! i) ! j = r \<and>
        (\<forall>k. k \<noteq> ''enable'' \<longrightarrow> field (radios_of (profiles_of config' ! i) ! j) k = field r k) \<and>
        field (radios_of (profiles_of config' ! i) ! j) ''enable'' = Some (JBool v)))"
proof (intro conjI impI allI)
  assume "wf_config config"
  then obtain r where "locate_radio config pid t = Inr r" using locate_radio_total by blast
  then show "\<exists>ok config'. enable_radio config pid t v = Inr (ok, config')"
    by (auto simp: enable_radio_def split: option.splits)
next
  assume "get_radio_by_type config pid t = Inr None"
  then have "locate_radio config pid t = Inr None"
    by (auto simp: get_radio_by_type_def split: sum.splits)
  then show "enable_radio config pid t v = Inr (False, config)" by (simp add: enable_radio_def)
next
  fix i j r
  assume "locate_radio config pid t = Inr (Some (i, j, r))"
  then show "\<exists>config'. enable_radio config pid t v = Inr (True, config') \<and>
        (\<forall>k. k \<noteq> ''profiles'' \<longrightarrow> field config' k = field config k) \<and>
        length (profiles_of config') = length (profiles_of config) \<and>
        (\<forall>i'. i' \<noteq> i \<longrightarrow> profiles_of config' ! i' = profiles_of config ! i') \<and>
        (\<forall>k. k \<noteq> ''radio_list'' \<longrightarrow>
           field (profiles_of config' ! i) k = field (profiles_of config ! i) k) \<and>
        length (radios_of (profiles_of config' ! i)) = length (radios_of (profiles_of config ! i)) \<and>
        (\<forall>j'. j' \<noteq> j \<longrightarrow>
           radios_of (profiles_of config' ! i) ! j' = radios_of (profiles_of config ! i) ! j') \<and>
        radios_of (profiles_of config ! i) ! j = r \<and>
        (\<forall>k. k \<noteq> ''enable'' \<longrightarrow> field (radios_of (profiles_of config' ! i) ! j) k = field r k) \<and>
        field (radios_of (profiles_of config' ! i) ! j) ''enable'' = Some (JBool v)"
    by (rule enable_radio_frame_found)
qed

theorem enable_radio_frame_witness:
  "wf_config home_config \<and>
   (\<exists>ok config'. enable_radio home_config 1 ''2.4G'' True = Inr (ok, config')) \<and>
   get_radio_by_type home_config 1 ''5G-1'' = Inr None \<and>
   enable_radio home_config 1 ''5G-1'' True = Inr (False, home_config) \<and>
   locate_radio home_config 1 ''2.4G'' = Inr (Some (0, 0, home_radio)) \<and>
   (\<exists>config'. enable_radio home_config 1 ''2.4G'' True = Inr (True, config') \<and>
      length (profiles_of config') = length (profiles_of home_config) \<and>
      field (profiles_of config' ! 0) ''id'' = field (profiles_of home_config ! 0) ''id'' \<and>
      field (radios_of (profiles_of config' ! 0) ! 0) ''ssid'' = field home_radio ''ssid'' \<and>
      field (radios_of (profiles_of config' ! 0) ! 0) ''enable'' = Some (JBool True))"
proof -
  note band = enable_radio_frame [of home_config 1 "''2.4G''" True]
  note other = enable_radio_frame [of home_config 1 "''5G-1''" True]
  have w: "wf_config home_config"
    by (simp add: wf_config_def wf_profile_def get_profiles_def
        home_radio_def home_profile_def home_config_def)
  have n: "get_radio_by_type home_config 1 ''5G-1'' = Inr None"
    by (simp add: lookup_defs home_radio_def home_profile_def home_config_def)
  have l: "locate_radio home_config 1 ''2.4G'' = Inr (Some (0, 0, home_radio))"
    by (simp add: lookup_defs home_radio_def home_profile_def home_config_def)
  have 1: "\<exists>ok config'. enable_radio home_config 1 ''2.4G'' True = Inr (ok, config')"
    by (rule band [THEN conjunct1, rule_format, OF w])
  have 2: "enable_radio home_config 1 ''5G-1'' True = Inr (False, home_config)"
    by (rule other [THEN conjunct2, THEN conjunct1, rule_format, OF n])
  from band [THEN conjunct2, THEN conjunct2, rule_format, OF l] obtain config' where
    e: "enable_radio home_config 1 ''2.4G'' True = Inr (True, config')" and
    p: "length (profiles_of config') = length (profiles_of home_config)" and
    pk: "\<forall>k. k \<noteq> ''radio_list'' \<longrightarrow>
           field (profiles_of config' ! 0) k = field (profiles_of home_config ! 0) k" and
    rk: "\<forall>k. k \<noteq> ''enable'' \<longrightarrow>
           field (radios_of (profiles_of config' ! 0) ! 0) k = field home_radio k" and
    en: "field (radios_of (profiles_of config' ! 0) ! 0) ''enable'' = Some (JBool True)"
    by (elim exE conjE)
  from pk have 3: "field (profiles_of config' ! 0) ''id'' = field (profiles_of home_config ! 0) ''id''"
    by simp
  from rk have 4: "field (radios_of (profiles_of config' ! 0) ! 0) ''ssid'' = field home_radio ''ssid''"
    by simp
  from e p 3 4 en have
    "\<exists>config'. enable_radio home_config 1 ''2.4G'' True = Inr (True, config') \<and>
      length (profiles_of config') = length (profiles_of home_config) \<and>
      field (profiles_of config' ! 0) ''id'' = field (profiles_of home_config ! 0) ''id'' \<and>
      field (radios_of (profiles_of config' ! 0) ! 0) ''ssid'' = field home_radio ''ssid'' \<and>
      field (radios_of (profiles_of config' ! 0) ! 0) ''enable'' = Some (JBool True)"
    by (intro exI [of _ config'] conjI)
  with w 1 n 2 l show ?thesis by (intro conjI)
qed

lemma enable_radio_twice:
  assumes "locate_radio config pid t = Inr (Some (i, j, r))"
  shows "\<exists>config1. enable_radio config pid t v = Inr (True, config1) \<and>
           enable_radio config1 pid t v = Inr (True, config1) \<and>
           is_radio_enabled config1 pid t = Inr (JBool v)"
proof -
  from locate_radio_shape [OF assms] obtain kvs ps pkvs rs where
    c: "config = JDict kvs" and
    s: "map_of kvs ''profiles'' = Some (JList ps)" "i < length ps"
       "ps ! i = JDict pkvs" "map_of pkvs ''radio_list'' = Some (JList rs)" "j < length rs" "rs ! j = r"
    and fp: "first_match ''id'' (\<lambda>v. py_eq_int v pid) ps = Inr (Some (i, JDict pkvs))"
    and fr: "first_match ''radio_type'' (\<lambda>v. py_eq_str v t) rs = Inr (Some (j, r))"
    by blast
  from fr have "is_dict r" by (auto dest: first_match_elem_dict)
  then obtain rk where rk: "r = JDict rk" by (cases r) auto
  let ?r' = "JDict (AList.update ''enable'' (JBool v) rk)"
  let ?rs' = "rs[j := ?r']"
  let ?pk' = "AList.update ''radio_list'' (JList ?rs') pkvs"
  let ?ps' = "ps[i := JDict ?pk']"
  let ?kv' = "AList.update ''profiles'' (JList ?ps') kvs"
  have a: "at_radio i j (\<lambda>r. py_setitem r ''enable'' (JBool v)) config = JDict ?kv'"
    using c s rk by (simp add: at_radio_eval)
  with enable_radio_found [OF assms, of v]
  have e: "enable_radio config pid t v = Inr (True, JDict ?kv')" by simp
  have fp': "first_match ''id'' (\<lambda>v. py_eq_int v pid) ?ps' = Inr (Some (i, JDict ?pk'))"
    using fp by (rule first_match_update) (simp add: update_conv')
  have fr': "first_match ''radio_type'' (\<lambda>v. py_eq_str v t) ?rs' = Inr (Some (j, ?r'))"
  proof -
    from fr rk have "first_match ''radio_type'' (\<lambda>v. py_eq_str v t) rs = Inr (Some (j, JDict rk))"
      by simp
    then show ?thesis by (rule first_match_update) (simp add: update_conv')
  qed
  have lp: "locate_profile (JDict ?kv') pid = Inr (Some (i, JDict ?pk'))"
    using fp' by (simp add: locate_profile_def get_profiles_def update_conv')
  have l: "locate_radio (JDict ?kv') pid t = Inr (Some (i, j, ?r'))"
    using lp fr' by (simp add: locate_radio_def update_conv')
  have a': "at_radio i j (\<lambda>r. py_setitem r ''enable'' (JBool v)) (JDict ?kv') = JDict ?kv'"
  proof -
    have "at_radio i j (\<lambda>r. py_setitem r ''enable'' (JBool v)) (JDict ?kv') =
      JDict (AList.update ''profiles''
       (JList (?ps'[i := JDict (AList.update ''radio_list''
          (JList (?rs'[j := py_setitem (?rs' ! j) ''enable'' (JBool v)])) ?pk')])) ?kv')"
      using s by (intro at_radio_eval) (simp_all add: update_conv')
    also have "\<dots> = JDict ?kv'" using s by simp
    finally show ?thesis .
  qed
  from enable_radio_found [OF l, of v] a'
  have e': "enable_radio (JDict ?kv') pid t v = Inr (True, JDict ?kv')" by simp
  from l have "get_radio_by_type (JDict ?kv') pid t = Inr (Some ?r')"
    by (simp add: get_radio_by_type_def)
  then have q: "is_radio_enabled (JDict ?kv') pid t = Inr (JBool v)"
    by (simp add: is_radio_enabled_def update_conv')
  from e e' q show ?thesis by blast
qed

text \<open>
  Claim C7. In a configuration of the shape the type hints give, let the profile with id
  \<open>p\<close> have a radio of type \<open>r\<close>. Then \<^verbatim>\<open>enable_radio\<close> with \<^verbatim>\<open>True\<close> returns \<^verbatim>\<open>True\<close>; called
  again on the configuration it has left, it returns \<^verbatim>\<open>True\<close> again and leaves that
  configuration as it is; and \<^verbatim>\<open>is_radio_enabled\<close> then returns \<^verbatim>\<open>True\<close>.
\<close>

theorem enable_radio_idempotent:
  assumes "wf_config config"
    and "find (profile_has_id p) (profiles_of config) = Some profile"
    and "find (radio_has_type r) (radios_of profile) = Some radio"
  shows "\<exists>config1. enable_radio config p r True = Inr (True, config1) \<and>
           enable_radio config1 p r True = Inr (True, config1) \<and>
           is_radio_enabled config1 p r = Inr (JBool True)"
proof -
  from assms(1) have wp: "wf_profiles config" by (rule wf_config_profiles)
  from assms(2) have "profile \<in> set (profiles_of config)" by (auto simp: find_Some_iff)
  with assms(1) have "wf_profile profile"
    by (auto simp: wf_config_def profiles_of_def list_all_iff split: sum.splits json.splits)
  from get_radio_by_type_find [OF wp assms(2) this, of r] assms(3)
  have "get_radio_by_type config p r = Inr (Some radio)" by simp
  then obtain i j where "locate_radio config p r = Inr (Some (i, j, radio))"
    by (auto simp: get_radio_by_type_def split: sum.splits)
  then show ?thesis by (rule enable_radio_twice)
qed

theorem enable_radio_idempotent_witness:
  "wf_config house_config \<and>
   find (profile_has_id 2) (profiles_of house_config) = Some guest_profile \<and>
   find (radio_has_type ''5G-1'') (radios_of guest_profile) = Some guest_band_radio \<and>
   (\<exists>config1. enable_radio house_config 2 ''5G-1'' True = Inr (True, config1) \<and>
      enable_radio config1 2 ''5G-1'' True = Inr (True, config1) \<and>
      is_radio_enabled config1 2 ''5G-1'' = Inr (JBool True))"
proof -
  have w: "wf_config house_config"
    by (simp add: wf_config_def wf_profile_def get_profiles_def house_config_def home_profile_def
        home_radio_def guest_profile_def guest_smart_radio_def guest_band_radio_def
        spare_profile_def)
  have ps: "profiles_of house_config = [home_profile, guest_profile, spare_profile]"
    by (simp add: profiles_of_def get_profiles_def house_config_def)
  have g: "find (profile_has_id 2) (profiles_of house_config) = Some guest_profile"
    by (simp add: ps profile_has_id_def home_profile_def guest_profile_def)
  have rs: "radios_of guest_profile = [guest_smart_radio, guest_band_radio]"
    by (simp add: radios_of_def guest_profile_def)
  have r: "find (radio_has_type ''5G-1'') (radios_of guest_profile) = Some guest_band_radio"
    by (simp add: rs radio_has_type_def guest_smart_radio_def guest_band_radio_def)
  from w g r enable_radio_idempotent [OF w g r] show ?thesis by (intro conjI)
qed

section \<open>The network summary\<close>

lemma summary_radios_entries:
  "list_all is_dict rs \<Longrightarrow>
     summary_radios str (value_or p ''id'' JNull) (value_or p ''network_type'' (JStr ''custom''))
       (profile_name_of str p) (value_or p ''enable_smart_connect'' (JBool False)) rs
     = Inr (map (radio_entry str p) rs)"
proof (induction rs)
  case Nil
  then show ?case by simp
next
  case (Cons r rs)
  from Cons.prems obtain kvs where r: "r = JDict kvs" by (cases r) auto
  from Cons have ih: "summary_radios str (value_or p ''id'' JNull)
       (value_or p ''network_type'' (JStr ''custom''))
       (profile_name_of str p) (value_or p ''enable_smart_connect'' (JBool False)) rs
     = Inr (map (radio_entry str p) rs)" by simp
  show ?case by (simp add: r ih radio_entry_def)
qed

lemma summary_profiles_step:
  "summary_profiles str (JDict kvs # ps) =
     (case py_iter (value_or (JDict kvs) ''radio_list'' (JList [])) of
        Inl e \<Rightarrow> Inl e
      | Inr rs \<Rightarrow>
     (case summary_radios str (value_or (JDict kvs) ''id'' JNull)
             (value_or (JDict kvs) ''network_type'' (JStr ''custom''))
             (profile_name_of str (JDict kvs))
             (value_or (JDict kvs) ''enable_smart_connect'' (JBool False)) rs of
        Inl e \<Rightarrow> Inl e
      | Inr radio_entries \<Rightarrow>
     (case summary_profiles str ps of
        Inl e \<Rightarrow> Inl e
      | Inr ds \<Rightarrow> Inr (toggle_entry str (JDict kvs) # radio_entries @ ds))))"
  by (simp add: toggle_entry_def profile_name_of_def cong: sum.case_cong)

lemma summary_profiles_entries:
  "list_all wf_profile ps \<Longrightarrow>
     summary_profiles str ps = Inr (concat (map (profile_entries str) ps))"
proof (induction ps)
  case Nil
  then show ?case by simp
next
  case (Cons p ps)
  from Cons.prems have wp: "wf_profile p" by simp
  then obtain kvs where p: "p = JDict kvs" by (cases p) (auto simp: wf_profile_def)
  from wp obtain rs where rl: "py_get p ''radio_list'' (JList []) = Inr (JList rs)"
    and rs: "list_all is_dict rs"
    by (auto simp: wf_profile_def split: sum.splits json.splits)
  from rl have ro: "radios_of p = rs" by (simp add: radios_of_def)
  from Cons have ih: "summary_profiles str ps = Inr (concat (map (profile_entries str) ps))"
    by simp
  note sr = summary_radios_entries [OF rs, of str p]
  from rl have rl': "value_or p ''radio_list'' (JList []) = JList rs" by (simp add: p)
  have e: "toggle_entry str p # map (radio_entry str p) rs @ concat (map (profile_entries str) ps) =
      concat (map (profile_entries str) (p # ps))"
    by (simp add: profile_entries_def [of str p] ro)
  have "summary_profiles str (p # ps) =
      Inr (toggle_entry str p # map (radio_entry str p) rs @ concat (map (profile_entries str) ps))"
    unfolding p summary_profiles_step
    by (simp only: rl' [unfolded p] py_iter.simps sr [unfolded p] ih sum.case)
  with e show ?case by (simp only:)
qed

text \<open>
  Claim C3. On a configuration of the shape the type hints give, \<^verbatim>\<open>get_network_summary\<close>
  returns, for the profiles in their order, the Smart-Connect toggle of the profile
  followed by one entry per radio in the order of the radio list; the number of entries is
  the number of profiles plus the number of radios of all profiles. The result is a
  function of the configuration (and of \<^verbatim>\<open>str\<close>), so equal inputs give equal summaries.
\<close>

theorem network_summary_order:
  assumes "wf_config config"
  shows "get_network_summary str config = Inr (expected_summary str config) \<and>
         length (expected_summary str config) =
           length (profiles_of config) + sum_list (map (\<lambda>p. length (radios_of p)) (profiles_of config))"
proof -
  from assms obtain ps where ps: "get_profiles config = Inr (JList ps)" "list_all wf_profile ps"
    by (auto simp: wf_config_def split: sum.splits json.splits)
  then have 1: "get_network_summary str config = Inr (expected_summary str config)"
    by (simp add: get_network_summary_def expected_summary_def profiles_of_def
        summary_profiles_entries)
  have 2: "length (concat (map (profile_entries str) qs)) =
      length qs + sum_list (map (\<lambda>p. length (radios_of p)) qs)" for qs
    by (induction qs) (simp_all add: profile_entries_def)
  from 1 2 show ?thesis by (simp add: expected_summary_def)
qed

theorem network_summary_order_witness:
  "wf_config home_config \<and>
   get_network_summary (\<lambda>v. ''1'') home_config = Inr (expected_summary (\<lambda>v. ''1'') home_config) \<and>
   length (expected_summary (\<lambda>v. ''1'') home_config) = 2 \<and>
   length (profiles_of home_config) = 1 \<and>
   sum_list (map (\<lambda>p. length (radios_of p)) (profiles_of home_config)) = 1"
proof -
  have w: "wf_config home_config"
    by (simp add: wf_config_def wf_profile_def get_profiles_def
        home_radio_def home_profile_def home_config_def)
  have p: "profiles_of home_config = [home_profile]"
    by (simp add: profiles_of_def get_profiles_def home_radio_def home_profile_def home_config_def)
  have r: "radios_of home_profile = [home_radio]"
    by (simp add: radios_of_def home_radio_def home_profile_def home_config_def)
  from w network_summary_order [OF w, of "\<lambda>v. ''1''"] show ?thesis
    by (simp add: p r)
qed

section \<open>The snapshot and the model\<close>

text \<open>
  Claim C4 says that the model built from a snapshot is an independently mutable copy
  of it. It is not: the model holds the snapshot itself, so \<^verbatim>\<open>get_config\<close> of a model built
  from the object at address 0 is address 0, and after \<^verbatim>\<open>enable_radio\<close> through the model
  the snapshot at address 0 has changed.
\<close>

theorem model_is_copy_counterexample:
  "get_config (WiFiConfigManager_init 0) = 0 \<and>
   snd (enable_radio_at home_heap (WiFiConfigManager_init 0) 1 ''2.4G'' True) 0 \<noteq> home_heap 0"
  by (simp add: get_config_def WiFiConfigManager_init_def enable_radio_at_def home_heap_def
      enable_radio_def lookup_defs home_radio_def home_profile_def home_config_def
      at_radio_def at_profile_def)

text \<open>
  Claim C4, amended. \<^verbatim>\<open>get_config\<close> of the model built from a snapshot returns that very
  snapshot, hence, with no mutation in between, a structure equal to it. The model shares
  the snapshot: what \<^verbatim>\<open>enable_radio\<close> or \<^verbatim>\<open>toggle_smart_connect\<close> does through the model is
  done to the snapshot, and to no other object.
\<close>

theorem model_shares_snapshot:
  "get_config (WiFiConfigManager_init snapshot) = snapshot \<and>
   h (get_config (WiFiConfigManager_init snapshot)) = h snapshot \<and>
   (\<forall>ok h'. enable_radio_at h (WiFiConfigManager_init snapshot) pid t v = (Inr ok, h') \<longrightarrow>
      enable_radio (h snapshot) pid t v = Inr (ok, h' snapshot) \<and>
      (\<forall>r. r \<noteq> snapshot \<longrightarrow> h' r = h r)) \<and>
   (\<forall>ok h'. toggle_smart_connect_at h (WiFiConfigManager_init snapshot) pid v = (Inr ok, h') \<longrightarrow>
      toggle_smart_connect (h snapshot) pid v = Inr (ok, h' snapshot) \<and>
      (\<forall>r. r \<noteq> snapshot \<longrightarrow> h' r = h r))"
  by (auto simp: get_config_def WiFiConfigManager_init_def enable_radio_at_def
      toggle_smart_connect_at_def split: sum.splits)

theorem model_shares_snapshot_witness:
  "enable_radio_at home_heap (WiFiConfigManager_init 0) 1 ''2.4G'' True =
     (Inr True, snd (enable_radio_at home_heap (WiFiConfigManager_init 0) 1 ''2.4G'' True)) \<and>
   toggle_smart_connect_at home_heap (WiFiConfigManager_init 0) 1 True =
     (Inr True, snd (toggle_smart_connect_at home_heap (WiFiConfigManager_init 0) 1 True)) \<and>
   get_config (WiFiConfigManager_init 0) = 0 \<and>
   enable_radio (home_heap 0) 1 ''2.4G'' True =
     Inr (True, snd (enable_radio_at home_heap (WiFiConfigManager_init 0) 1 ''2.4G'' True) 0) \<and>
   snd (enable_radio_at home_heap (WiFiConfigManager_init 0) 1 ''2.4G'' True) 1 = home_heap 1 \<and>
   toggle_smart_connect (home_heap 0) 1 True =
     Inr (True, snd (toggle_smart_connect_at home_heap (WiFiConfigManager_init 0) 1 True) 0)"
proof -
  let ?m = "WiFiConfigManager_init 0"
  let ?h = "snd (enable_radio_at home_heap ?m 1 ''2.4G'' True)"
  let ?g = "snd (toggle_smart_connect_at home_heap ?m 1 True)"
  note shared = model_shares_snapshot [of 0 home_heap 1 "''2.4G''" True]
  have e: "enable_radio_at home_heap ?m 1 ''2.4G'' True = (Inr True, ?h)"
    by (simp add: WiFiConfigManager_init_def enable_radio_at_def home_heap_def
        enable_radio_def lookup_defs home_radio_def home_profile_def home_config_def)
  have t: "toggle_smart_connect_at home_heap ?m 1 True = (Inr True, ?g)"
    by (simp add: WiFiConfigManager_init_def toggle_smart_connect_at_def home_heap_def
        toggle_smart_connect_def lookup_defs home_radio_def home_profile_def home_config_def)
  have 1: "get_config ?m = 0" by (rule shared [THEN conjunct1])
  from shared [THEN conjunct2, THEN conjunct2, THEN conjunct1, rule_format, OF e]
  have 2: "enable_radio (home_heap 0) 1 ''2.4G'' True = Inr (True, ?h 0)"
    and 3: "?h 1 = home_heap 1" by simp_all
  from shared [THEN conjunct2, THEN conjunct2, THEN conjunct2, rule_format, OF t]
  have 4: "toggle_smart_connect (home_heap 0) 1 True = Inr (True, ?g 0)" by simp
  from e t 1 2 3 4 show ?thesis by (intro conjI)
qed

section \<open>The response envelope\<close>









section \<open>The retry on an expired session\<close>

text \<open>
  Claim C1, at the input where the code departs from it. The router holds the session
  \<^verbatim>\<open>stale\<close>; the server answers code 106 to the restricted call, a new \<^verbatim>\<open>sid\<close> to the login,
  and code 106 again to the repeated call. The transport sends exactly three requests (the
  call, the login, the call again with the same address and parameters and the new
  cookie) and stores the new \<^verbatim>\<open>sid\<close>: so far as the claim says. But the call then fails
  with \<^verbatim>\<open>TypeError\<close>, raised while the \<^verbatim>\<open>SynologyCommonError\<close> is being constructed, not with
  a \<^verbatim>\<open>SynologyCommonError\<close> carrying 106 and its message. The same happens, after a single
  request, when the call is unrestricted.
\<close>

theorem session_retry_raises_type_error:
  "call expiring_server router get_network_setting_args =
     (Inl TypeError,
      router\<lparr>sid := JStr ''fresh'',
             sent := [request_of router get_network_setting_args,
                      request_of router (login_args router),
                      request_of (router\<lparr>sid := JStr ''fresh''\<rparr>) retry_args]\<rparr>) \<and>
   req_url (request_of (router\<lparr>sid := JStr ''fresh''\<rparr>) retry_args) =
     req_url (request_of router get_network_setting_args) \<and>
   req_params (request_of (router\<lparr>sid := JStr ''fresh''\<rparr>) retry_args) =
     req_params (request_of router get_network_setting_args) \<and>
   req_cookies (request_of (router\<lparr>sid := JStr ''fresh''\<rparr>) retry_args) = [(''id'', JStr ''fresh'')] \<and>
   call expiring_server router (get_network_setting_args\<lparr>restricted := False\<rparr>) =
     (Inl TypeError,
      router\<lparr>sent := [request_of router (get_network_setting_args\<lparr>restricted := False\<rparr>)]\<rparr>) \<and>
   TypeError \<noteq> SynologyCommonError (JInt 106) ''Session timeout''"
  by (simp add: call.simps login.simps transport_defs expiring_server_def router_def
      get_network_setting_args_def retry_args_def json_reply_def session_timeout_def)

section \<open>Setting the profiles\<close>

text \<open>
  Claim C9. \<^verbatim>\<open>set_network_setting\<close> called with a dict that has a \<^verbatim>\<open>profiles\<close> key makes the
  transport call with the serialisation of the value under that key as its \<^verbatim>\<open>profiles\<close>
  parameter; called with a list, with the serialisation of the list; called with anything
  else (a dict without the key, a string, a number, a boolean, \<^verbatim>\<open>None\<close>) it raises
  \<^verbatim>\<open>ValueError\<close> and the transport is not used: nothing is sent and the session is as it was.
  The last conjunct gives the parameters of the request that the call sends.
\<close>

theorem set_network_setting_argument:
  "(\<forall>kvs v. profiles = JDict kvs \<and> map_of kvs ''profiles'' = Some v \<longrightarrow>
      set_network_setting dumps server w profiles =
        call server w (set_network_setting_args (dumps v))) \<and>
   (\<forall>xs. profiles = JList xs \<longrightarrow>
      set_network_setting dumps server w profiles =
        call server w (set_network_setting_args (dumps (JList xs)))) \<and>
   (\<not> is_list profiles \<and> (\<forall>kvs. profiles = JDict kvs \<longrightarrow> map_of kvs ''profiles'' = None) \<longrightarrow>
      set_network_setting dumps server w profiles =
        (Inl (ValueError ''Profiles must be a list or dict with 'profiles' key''), w)) \<and>
   full_params (set_network_setting_args s) =
     [(''profiles'', JStr s), (''api'', JStr ''SYNO.Wifi.Network.Setting''),
      (''method'', JStr ''set''), (''version'', JInt 1)]"
proof (intro conjI allI impI)
  fix kvs v
  assume "profiles = JDict kvs \<and> map_of kvs ''profiles'' = Some v"
  then show "set_network_setting dumps server w profiles =
        call server w (set_network_setting_args (dumps v))"
    by (simp add: set_network_setting_def profiles_data_of_def)
next
  fix xs
  assume "profiles = JList xs"
  then show "set_network_setting dumps server w profiles =
        call server w (set_network_setting_args (dumps (JList xs)))"
    by (simp add: set_network_setting_def profiles_data_of_def)
next
  assume "\<not> is_list profiles \<and> (\<forall>kvs. profiles = JDict kvs \<longrightarrow> map_of kvs ''profiles'' = None)"
  then show "set_network_setting dumps server w profiles =
        (Inl (ValueError ''Profiles must be a list or dict with 'profiles' key''), w)"
    by (cases profiles) (simp_all add: set_network_setting_def profiles_data_of_def)
next
  show "full_params (set_network_setting_args s) =
     [(''profiles'', JStr s), (''api'', JStr ''SYNO.Wifi.Network.Setting''),
      (''method'', JStr ''set''), (''version'', JInt 1)]"
    by (simp add: full_params_def set_network_setting_args_def)
qed

theorem set_network_setting_argument_witness:
  "set_network_setting (\<lambda>d. ''[]'') expiring_server router home_config =
     call expiring_server router (set_network_setting_args ''[]'') \<and>
   set_network_setting (\<lambda>d. ''[]'') expiring_server router (JList [home_profile]) =
     call expiring_server router (set_network_setting_args ''[]'') \<and>
   \<not> is_list home_profile \<and>
   set_network_setting (\<lambda>d. ''[]'') expiring_server router home_profile =
     (Inl (ValueError ''Profiles must be a list or dict with 'profiles' key''), router)"
proof -
  note dict = set_network_setting_argument [of home_config "\<lambda>d. ''[]''" expiring_server router]
  note list = set_network_setting_argument [of "JList [home_profile]" "\<lambda>d. ''[]''" expiring_server router]
  note other = set_network_setting_argument [of home_profile "\<lambda>d. ''[]''" expiring_server router]
  have d: "home_config = JDict [(''profiles'', JList [home_profile])] \<and>
      map_of [(''profiles'', JList [home_profile])] ''profiles'' = Some (JList [home_profile])"
    by (simp add: home_config_def)
  have 1: "set_network_setting (\<lambda>d. ''[]'') expiring_server router home_config =
     call expiring_server router (set_network_setting_args ''[]'')"
    by (rule dict [THEN conjunct1, rule_format, OF d])
  have 2: "set_network_setting (\<lambda>d. ''[]'') expiring_server router (JList [home_profile]) =
     call expiring_server router (set_network_setting_args ''[]'')"
    by (rule list [THEN conjunct2, THEN conjunct1, rule_format]) simp
  have n: "\<not> is_list home_profile" by (simp add: home_profile_def)
  have o: "\<not> is_list home_profile \<and>
      (\<forall>kvs. home_profile = JDict kvs \<longrightarrow> map_of kvs ''profiles'' = None)"
    by (auto simp: home_profile_def)
  have 3: "set_network_setting (\<lambda>d. ''[]'') expiring_server router home_profile =
     (Inl (ValueError ''Profiles must be a list or dict with 'profiles' key''), router)"
    by (rule other [THEN conjunct2, THEN conjunct2, THEN conjunct1, rule_format, OF o])
  from 1 2 n 3 show ?thesis by (intro conjI)
qed

end
